theory Spec2Isabelle
  imports Main
begin

section \<open>Python values used by the HeartLink environment check\<close>

text \<open>
  A Python \<open>str\<close> is a sequence of Unicode code points. It is modelled as a list of
  natural numbers, one per code point, so that \<open>len\<close>, \<open>strip\<close> and
  \<open>splitlines\<close> count and classify exactly what Python counts and classifies.
  ASCII literals of the source are written \<open>u ''...''\<close>; the Chinese literals are
  given by their code points.
\<close>

type_synonym codepoint = nat
type_synonym str = "codepoint list"

definition u :: "string \<Rightarrow> str" where
  "u s = map of_char s"

text \<open>
  The exception classes that matter to the three \<open>except\<close> clauses of
  \<open>env_check.py\<close>, with Python's inheritance between them. Every class of the model
  derives from \<open>Exception\<close>; \<open>OtherException\<close> stands for any further subclass of
  \<open>Exception\<close> unrelated to the named ones. The system-exiting signals
  (\<open>KeyboardInterrupt\<close>, \<open>SystemExit\<close>) are outside the model.
\<close>

datatype exc_class =
    Exception
  | OSError
  | FileNotFoundError
  | PermissionError
  | SubprocessError
  | TimeoutExpired
  | CalledProcessError
  | ValueError
  | UnicodeDecodeError
  | ImportError
  | RuntimeError
  | IndexError
  | KeyError
  | OtherException

text \<open>The method resolution order of each class: the class itself, then its bases.\<close>

fun mro :: "exc_class \<Rightarrow> exc_class list" where
  "mro Exception = [Exception]"
| "mro OSError = [OSError, Exception]"
| "mro FileNotFoundError = [FileNotFoundError, OSError, Exception]"
| "mro PermissionError = [PermissionError, OSError, Exception]"
| "mro SubprocessError = [SubprocessError, Exception]"
| "mro TimeoutExpired = [TimeoutExpired, SubprocessError, Exception]"
| "mro CalledProcessError = [CalledProcessError, SubprocessError, Exception]"
| "mro ValueError = [ValueError, Exception]"
| "mro UnicodeDecodeError = [UnicodeDecodeError, ValueError, Exception]"
| "mro ImportError = [ImportError, Exception]"
| "mro RuntimeError = [RuntimeError, Exception]"
| "mro IndexError = [IndexError, Exception]"
| "mro KeyError = [KeyError, Exception]"
| "mro OtherException = [OtherException, Exception]"

text \<open>A raised exception: its class and the text that \<open>str(exc)\<close> gives.\<close>

datatype py_exc = Exc exc_class str

fun exc_str :: "py_exc \<Rightarrow> str" where
  "exc_str (Exc c m) = m"

fun isinstance :: "py_exc \<Rightarrow> exc_class \<Rightarrow> bool" where
  "isinstance (Exc c m) d = (d \<in> set (mro c))"

subsection \<open>String methods\<close>

text \<open>\<open>Py_UNICODE_ISSPACE\<close>: the code points that \<open>str.strip()\<close> removes.\<close>

definition is_space :: "codepoint \<Rightarrow> bool" where
  "is_space c =
     ((0x09 \<le> c \<and> c \<le> 0x0D) \<or> (0x1C \<le> c \<and> c \<le> 0x20) \<or> c = 0x85 \<or> c = 0xA0
      \<or> c = 0x1680 \<or> (0x2000 \<le> c \<and> c \<le> 0x200A) \<or> c = 0x2028 \<or> c = 0x2029
      \<or> c = 0x202F \<or> c = 0x205F \<or> c = 0x3000)"

text \<open>\<open>Py_UNICODE_ISLINEBREAK\<close>: the code points at which \<open>str.splitlines()\<close> splits.\<close>

definition is_linebreak :: "codepoint \<Rightarrow> bool" where
  "is_linebreak c =
     ((0x0A \<le> c \<and> c \<le> 0x0D) \<or> (0x1C \<le> c \<and> c \<le> 0x1E) \<or> c = 0x85
      \<or> c = 0x2028 \<or> c = 0x2029)"

definition lstrip :: "str \<Rightarrow> str" where
  "lstrip s = dropWhile is_space s"

definition rstrip :: "str \<Rightarrow> str" where
  "rstrip s = rev (dropWhile is_space (rev s))"

definition strip :: "str \<Rightarrow> str" where
  "strip s = rstrip (lstrip s)"

definition startswith :: "str \<Rightarrow> str \<Rightarrow> bool" where
  "startswith s p = (take (length p) s = p)"

text \<open>
  \<open>s.splitlines()\<close>: the lines of \<open>s\<close> without their terminators. \<open>\r\n\<close> is one
  terminator, a terminator at the very end opens no further line, and the empty string
  has no line. The first argument is the line read so far.
\<close>

fun splitlines_from :: "str \<Rightarrow> str \<Rightarrow> str list" where
  "splitlines_from cur [] = (if cur = [] then [] else [cur])"
| "splitlines_from cur (c # cs) =
     (if c = 0x0D then
        (case cs of
           [] \<Rightarrow> [cur]
         | d # ds \<Rightarrow> if d = 0x0A then cur # splitlines_from [] ds
                    else cur # splitlines_from [] (d # ds))
      else if is_linebreak c then cur # splitlines_from [] cs
      else splitlines_from (cur @ [c]) cs)"

definition splitlines :: "str \<Rightarrow> str list" where
  "splitlines s = splitlines_from [] s"

text \<open>
  \<open>s.split(sep, 1)\<close> for a one-character separator: at most one split, at the first
  occurrence of the separator.
\<close>

fun split_once_from :: "str \<Rightarrow> codepoint \<Rightarrow> str \<Rightarrow> str list" where
  "split_once_from acc sep [] = [acc]"
| "split_once_from acc sep (c # cs) =
     (if c = sep then [acc, cs] else split_once_from (acc @ [c]) sep cs)"

definition split_once :: "str \<Rightarrow> codepoint \<Rightarrow> str list" where
  "split_once s sep = split_once_from [] sep s"

text \<open>\<open>xs[i]\<close> for a non-negative index: \<open>IndexError\<close> out of range.\<close>

definition getitem :: "'a list \<Rightarrow> nat \<Rightarrow> py_exc + 'a" where
  "getitem xs i =
     (if i < length xs then Inr (xs ! i)
      else Inl (Exc IndexError (u ''list index out of range'')))"

text \<open>\<open>s.replace(a, b)\<close> for one-character \<open>a\<close> and \<open>b\<close>.\<close>

definition replace_char :: "str \<Rightarrow> codepoint \<Rightarrow> codepoint \<Rightarrow> str" where
  "replace_char s a b = map (\<lambda>c. if c = a then b else c) s"

text \<open>\<open>format(s, "<n")\<close>: left-aligned in a field of at least \<open>n\<close> code points.\<close>

definition ljust :: "nat \<Rightarrow> str \<Rightarrow> str" where
  "ljust n s = s @ replicate (n - length s) 0x20"

subsection \<open>Dictionaries\<close>

text \<open>
  A \<open>dict\<close> keeps its keys in insertion order, and the formatters iterate in that order:
  it is an association list with distinct keys. Assigning to a key that is present
  replaces its value in place; a new key goes to the end.
\<close>

type_synonym ('k, 'v) dict = "('k \<times> 'v) list"

fun dict_setitem :: "('k, 'v) dict \<Rightarrow> 'k \<Rightarrow> 'v \<Rightarrow> ('k, 'v) dict" where
  "dict_setitem [] k v = [(k, v)]"
| "dict_setitem ((k', v') # d) k v =
     (if k' = k then (k, v) # d else (k', v') # dict_setitem d k v)"

definition dict_get :: "('k, 'v) dict \<Rightarrow> 'k \<Rightarrow> 'v \<Rightarrow> 'v" where
  "dict_get d k dflt = (case map_of d k of None \<Rightarrow> dflt | Some v \<Rightarrow> v)"

definition dict_getitem :: "(str, 'v) dict \<Rightarrow> str \<Rightarrow> py_exc + 'v" where
  "dict_getitem d k = (case map_of d k of None \<Rightarrow> Inl (Exc KeyError k) | Some v \<Rightarrow> Inr v)"

text \<open>
  \<open>max(xs, key=f)\<close>: the first element whose key is maximal (a later element replaces
  the current one only when its key is strictly greater); \<open>ValueError\<close> on an empty
  sequence.
\<close>

fun max_from :: "('a \<Rightarrow> int) \<Rightarrow> 'a \<Rightarrow> 'a list \<Rightarrow> 'a" where
  "max_from f best [] = best"
| "max_from f best (x # xs) = (if f x > f best then max_from f x xs else max_from f best xs)"

fun py_max :: "('a \<Rightarrow> int) \<Rightarrow> 'a list \<Rightarrow> py_exc + 'a" where
  "py_max f [] = Inl (Exc ValueError (u ''max() arg is an empty sequence''))"
| "py_max f (x # xs) = Inr (max_from f x xs)"

section \<open>The host machine\<close>

text \<open>
  What the program reads from outside itself, as it is at one invocation: the strings of
  \<open>platform\<close> and \<open>sys\<close>, the anchor of the project's paths, what
  \<open>subprocess.run\<close> does with a command, what \<open>importlib\<close> and \<open>torch\<close> answer,
  and the file system seen through \<open>pathlib\<close>. A path is the list of its components.
\<close>

type_synonym path = "str list"

datatype run_result =
    CompletedProcess int str str
  | Raises py_exc

record world =
  platform_platform :: str
  sys_version :: str
  sys_executable :: str
  PROJECT_ROOT :: path
  subprocess_run :: "str list \<Rightarrow> run_result"
  find_spec_torch :: bool
  import_torch :: "py_exc option"
  cuda_is_available :: "py_exc + bool"
  cuda_get_device_name :: "nat \<Rightarrow> py_exc + str"
  path_exists :: "path \<Rightarrow> py_exc + bool"
  path_read_text :: "path \<Rightarrow> py_exc + str"

text \<open>
  \<open>CompletedProcess returncode stdout stderr\<close> is a process that ran and exited within
  the timeout; \<open>Raises\<close> is \<open>subprocess.run\<close> raising, as it does for a missing binary
  (\<open>FileNotFoundError\<close>), a timeout (\<open>TimeoutExpired\<close>), a binary that may not be
  executed (\<open>PermissionError\<close>) or output that is not valid text
  (\<open>UnicodeDecodeError\<close>). \<open>find_spec_torch\<close> is
  \<open>importlib.util.find_spec("torch") is not None\<close>; \<open>import_torch\<close> is the exception
  of \<open>import torch\<close>, if any. \<open>path_exists\<close> is \<open>Path.exists()\<close>: it answers
  \<open>False\<close> for a path that is not there, and raises the \<open>OSError\<close> of the
  underlying \<open>stat\<close> for any other failure, such as a directory on the way that may
  not be searched (\<open>PermissionError\<close>).

  The one effect the program has on the machine while it checks is that it spawns
  commands. The state threaded through the functions is the list of the command lines
  handed to \<open>subprocess.run\<close> so far; a computation ends with an exception or with a
  value.
\<close>

type_synonym calls = "str list list"
type_synonym 'a io = "calls \<Rightarrow> (py_exc + 'a) \<times> calls"

definition return_io :: "'a \<Rightarrow> 'a io" where
  "return_io x s = (Inr x, s)"

definition bind_io :: "'a io \<Rightarrow> ('a \<Rightarrow> 'b io) \<Rightarrow> 'b io" where
  "bind_io m f s = (case m s of (Inl e, s') \<Rightarrow> (Inl e, s') | (Inr x, s') \<Rightarrow> f x s')"

definition lift_io :: "py_exc + 'a \<Rightarrow> 'a io" where
  "lift_io r s = (r, s)"

section \<open>config.py\<close>

record HeartLinkConfig =
  env_path :: path
  data_dir :: path

definition load_default_config :: "world \<Rightarrow> HeartLinkConfig" where
  "load_default_config w =
     (let env_path = PROJECT_ROOT w @ [u ''.env''];
          data_dir = PROJECT_ROOT w @ [u ''data'']
      in \<lparr>env_path = env_path, data_dir = data_dir\<rparr>)"

section \<open>env\_check.py\<close>

text \<open>
  A \<open>StatusDetail\<close> is a dictionary with exactly the keys \<open>"status"\<close> and
  \<open>"detail"\<close>; a \<open>DiagnosticResult\<close> maps the name of a check to one. The functions
  \<open>_run_command\<close>, \<open>_detect_gpu_status\<close> and \<open>_check_env_file\<close> appear without
  their leading underscore.
\<close>

record StatusDetail =
  status :: str
  detail :: str

type_synonym DiagnosticResult = "(str, StatusDetail) dict"

definition STATUS_PRIORITY :: "(str, int) dict" where
  "STATUS_PRIORITY = [(u ''OK'', 0), (u ''WARN'', 1), (u ''FAIL'', 2)]"

text \<open>
  The Chinese string literals of the module, each by its code points. Where the source
  has an f-string, the constant is the text before the placeholder.
  \<^item> \<open>MSG_GPU_FOUND\<close>: line 43, before \<open>{device_name}\<close>;
    \<open>MSG_GPU_NO_CUDA\<close>: line 46;
    \<open>MSG_GPU_QUERY_FAILED\<close>: line 51, before \<open>{exc}\<close>;
    \<open>MSG_NVIDIA_SMI_OUTPUT\<close>: line 55, before \<open>{output}\<close>;
    \<open>MSG_GPU_MISSING\<close>: line 58.
  \<^item> \<open>MSG_ENV_MISSING\<close>: line 68;
    \<open>MSG_ENV_READ_FAILED\<close>: line 75, before \<open>{exc}\<close>;
    \<open>MSG_ENV_KEY_FOUND\<close>: line 86; \<open>MSG_ENV_KEY_MISSING\<close>: line 89.
  \<^item> \<open>MSG_NODE_MISSING\<close>: line 114; \<open>MSG_NPM_MISSING\<close>: line 125;
    \<open>MSG_PIP_MISSING\<close>: line 136.
  \<^item> \<open>MSG_SUMMARY_OK\<close>, \<open>MSG_SUMMARY_WARN\<close>, \<open>MSG_SUMMARY_FAIL\<close>: lines 150
    to 152; \<open>MSG_SUMMARY_UNKNOWN\<close>: line 154.
\<close>

definition MSG_GPU_FOUND :: str where
  "MSG_GPU_FOUND =
    [0x68C0, 0x6D4B, 0x5230, 0x20, 0x47, 0x50, 0x55, 0x3A, 0x20]"

definition MSG_GPU_NO_CUDA :: str where
  "MSG_GPU_NO_CUDA =
    [0x68C0, 0x6D4B, 0x5230, 0x20, 0x50, 0x79, 0x54, 0x6F, 0x72, 0x63, 0x68, 0x20, 0x4F46,
     0x20, 0x43, 0x55, 0x44, 0x41, 0x20, 0x4E0D, 0x53EF, 0x7528, 0xFF0C, 0x8BF7, 0x68C0,
     0x67E5, 0x9A71, 0x52A8, 0x6216, 0x20, 0x43, 0x55, 0x44, 0x41, 0x20, 0x7248, 0x672C,
     0x3002]"

definition MSG_GPU_QUERY_FAILED :: str where
  "MSG_GPU_QUERY_FAILED =
    [0x50, 0x79, 0x54, 0x6F, 0x72, 0x63, 0x68, 0x20, 0x5B58, 0x5728, 0x4F46, 0x65E0,
     0x6CD5, 0x83B7, 0x53D6, 0x20, 0x47, 0x50, 0x55, 0x20, 0x4FE1, 0x606F, 0x3A, 0x20]"

definition MSG_NVIDIA_SMI_OUTPUT :: str where
  "MSG_NVIDIA_SMI_OUTPUT =
    [0x6E, 0x76, 0x69, 0x64, 0x69, 0x61, 0x2D, 0x73, 0x6D, 0x69, 0x20, 0x8F93, 0x51FA,
     0x3A, 0x20]"

definition MSG_GPU_MISSING :: str where
  "MSG_GPU_MISSING =
    [0x672A, 0x68C0, 0x6D4B, 0x5230, 0x20, 0x50, 0x79, 0x54, 0x6F, 0x72, 0x63, 0x68, 0x20,
     0x6216, 0x20, 0x6E, 0x76, 0x69, 0x64, 0x69, 0x61, 0x2D, 0x73, 0x6D, 0x69, 0xFF0C,
     0x5982, 0x9700, 0x20, 0x47, 0x50, 0x55, 0x20, 0x8BF7, 0x5B89, 0x88C5, 0x76F8, 0x5173,
     0x9A71, 0x52A8, 0x3002]"

definition MSG_ENV_MISSING :: str where
  "MSG_ENV_MISSING =
    [0x672A, 0x627E, 0x5230, 0x20, 0x2E, 0x65, 0x6E, 0x76, 0x20, 0x6587, 0x4EF6, 0xFF0C,
     0x8BF7, 0x590D, 0x5236, 0x20, 0x2E, 0x65, 0x6E, 0x76, 0x2E, 0x65, 0x78, 0x61, 0x6D,
     0x70, 0x6C, 0x65, 0x20, 0x5E76, 0x586B, 0x5199, 0x5BC6, 0x94A5, 0x3002]"

definition MSG_ENV_READ_FAILED :: str where
  "MSG_ENV_READ_FAILED =
    [0x8BFB, 0x53D6, 0x20, 0x2E, 0x65, 0x6E, 0x76, 0x20, 0x6587, 0x4EF6, 0x5931, 0x8D25,
     0x3A, 0x20]"

definition MSG_ENV_KEY_FOUND :: str where
  "MSG_ENV_KEY_FOUND =
    [0x5DF2, 0x68C0, 0x6D4B, 0x5230, 0x20, 0x4F, 0x50, 0x45, 0x4E, 0x41, 0x49, 0x5F, 0x41,
     0x50, 0x49, 0x5F, 0x4B, 0x45, 0x59, 0x20, 0x5B57, 0x6BB5, 0x3002]"

definition MSG_ENV_KEY_MISSING :: str where
  "MSG_ENV_KEY_MISSING =
    [0x4F, 0x50, 0x45, 0x4E, 0x41, 0x49, 0x5F, 0x41, 0x50, 0x49, 0x5F, 0x4B, 0x45, 0x59,
     0x20, 0x5B57, 0x6BB5, 0x7F3A, 0x5931, 0x6216, 0x672A, 0x586B, 0x5199, 0xFF0C, 0x8BF7,
     0x66F4, 0x65B0, 0x20, 0x2E, 0x65, 0x6E, 0x76, 0x3002]"

definition MSG_NODE_MISSING :: str where
  "MSG_NODE_MISSING =
    [0x672A, 0x68C0, 0x6D4B, 0x5230, 0x20, 0x4E, 0x6F, 0x64, 0x65, 0x2E, 0x6A, 0x73,
     0xFF0C, 0x8BF7, 0x5B89, 0x88C5, 0x20, 0x4C, 0x54, 0x53, 0x20, 0x7248, 0x672C, 0x4EE5,
     0x652F, 0x6301, 0x524D, 0x7AEF, 0x3002]"

definition MSG_NPM_MISSING :: str where
  "MSG_NPM_MISSING =
    [0x672A, 0x68C0, 0x6D4B, 0x5230, 0x20, 0x6E, 0x70, 0x6D, 0xFF0C, 0x8BF7, 0x968F, 0x20,
     0x4E, 0x6F, 0x64, 0x65, 0x2E, 0x6A, 0x73, 0x20, 0x4E00, 0x5E76, 0x5B89, 0x88C5, 0x3002]"

definition MSG_PIP_MISSING :: str where
  "MSG_PIP_MISSING =
    [0x672A, 0x68C0, 0x6D4B, 0x5230, 0x20, 0x70, 0x69, 0x70, 0xFF0C, 0x8BF7, 0x4F7F,
     0x7528, 0x5B98, 0x65B9, 0x5B89, 0x88C5, 0x7A0B, 0x5E8F, 0x4FEE, 0x590D, 0x20, 0x50,
     0x79, 0x74, 0x68, 0x6F, 0x6E, 0x3002]"

definition MSG_SUMMARY_OK :: str where
  "MSG_SUMMARY_OK =
    [0x6240, 0x6709, 0x68C0, 0x6D4B, 0x901A, 0x8FC7, 0xFF0C, 0x73AF, 0x5883, 0x51C6,
     0x5907, 0x5C31, 0x7EEA, 0x3002]"

definition MSG_SUMMARY_WARN :: str where
  "MSG_SUMMARY_WARN =
    [0x90E8, 0x5206, 0x68C0, 0x6D4B, 0x5B58, 0x5728, 0x8B66, 0x544A, 0xFF0C, 0x8BF7,
     0x6839, 0x636E, 0x63D0, 0x793A, 0x5B8C, 0x5584, 0x73AF, 0x5883, 0x3002]"

definition MSG_SUMMARY_FAIL :: str where
  "MSG_SUMMARY_FAIL =
    [0x68C0, 0x6D4B, 0x5B58, 0x5728, 0x5931, 0x8D25, 0x9879, 0xFF0C, 0x8BF7, 0x4F18,
     0x5148, 0x89E3, 0x51B3, 0x5173, 0x952E, 0x95EE, 0x9898, 0x3002]"

definition MSG_SUMMARY_UNKNOWN :: str where
  "MSG_SUMMARY_UNKNOWN =
    [0x90E8, 0x5206, 0x68C0, 0x6D4B, 0x5B58, 0x5728, 0x672A, 0x77E5, 0x72B6, 0x6001,
     0xFF0C, 0x8BF7, 0x4EBA, 0x5DE5, 0x786E, 0x8BA4, 0x3002]"

definition run_command :: "world \<Rightarrow> str list \<Rightarrow> (bool \<times> str) io" where
  "run_command w command s =
     (case subprocess_run w command of
        CompletedProcess returncode stdout stderr \<Rightarrow>
          (let success = (returncode = 0);
               output = (if strip stdout \<noteq> [] then strip stdout else strip stderr)
           in (Inr (success, output), s @ [command]))
      | Raises exc \<Rightarrow>
          (if isinstance exc FileNotFoundError \<or> isinstance exc SubprocessError
           then (Inr (False, exc_str exc), s @ [command])
           else (Inl exc, s @ [command])))"

text \<open>The body of the \<open>try\<close> of \<open>_detect_gpu_status\<close>: it returns or raises.\<close>

definition query_torch :: "world \<Rightarrow> py_exc + StatusDetail" where
  "query_torch w =
     (case import_torch w of
        Some exc \<Rightarrow> Inl exc
      | None \<Rightarrow>
          (case cuda_is_available w of
             Inl exc \<Rightarrow> Inl exc
           | Inr available \<Rightarrow>
               if available then
                 (case cuda_get_device_name w 0 of
                    Inl exc \<Rightarrow> Inl exc
                  | Inr device_name \<Rightarrow>
                      Inr \<lparr>status = u ''OK'', detail = MSG_GPU_FOUND @ device_name\<rparr>)
               else Inr \<lparr>status = u ''WARN'', detail = MSG_GPU_NO_CUDA\<rparr>))"

definition detect_gpu_status :: "world \<Rightarrow> StatusDetail io" where
  "detect_gpu_status w s =
     (if find_spec_torch w then
        (case query_torch w of
           Inr r \<Rightarrow> (Inr r, s)
         | Inl exc \<Rightarrow>
             if isinstance exc Exception
             then (Inr \<lparr>status = u ''WARN'', detail = MSG_GPU_QUERY_FAILED @ exc_str exc\<rparr>, s)
             else (Inl exc, s))
      else
        bind_io (run_command w [u ''nvidia-smi''])
          (\<lambda>(success, output).
             if success
             then return_io \<lparr>status = u ''OK'', detail = MSG_NVIDIA_SMI_OUTPUT @ output\<rparr>
             else return_io \<lparr>status = u ''WARN'', detail = MSG_GPU_MISSING\<rparr>) s)"

text \<open>
  In \<open>_check_env_file\<close> the call \<open>env_path.exists()\<close> stands before the
  \<open>try\<close>, so what it raises leaves the function; the \<open>try\<close> holds the read only.

  The loop of \<open>_check_env_file\<close> over the lines, from the value of \<open>has_key\<close> before
  it: the first line that starts with the key, once stripped, decides and ends the loop.
\<close>

fun scan_lines :: "bool \<Rightarrow> str list \<Rightarrow> py_exc + bool" where
  "scan_lines has_key [] = Inr has_key"
| "scan_lines has_key (line # rest) =
     (let stripped = strip line in
      if startswith stripped (u ''OPENAI_API_KEY='') then
        (case getitem (split_once stripped 0x3D) 1 of
           Inl exc \<Rightarrow> Inl exc
         | Inr val \<Rightarrow> Inr (if val \<noteq> [] then True else has_key))
      else scan_lines has_key rest)"

definition check_env_file :: "world \<Rightarrow> HeartLinkConfig \<Rightarrow> py_exc + StatusDetail" where
  "check_env_file w config =
     (let env_path = env_path config in
      case path_exists w env_path of
        Inl exc \<Rightarrow> Inl exc
      | Inr present \<Rightarrow>
          if \<not> present then
            Inr \<lparr>status = u ''WARN'', detail = MSG_ENV_MISSING\<rparr>
          else
            (case path_read_text w env_path of
               Inl exc \<Rightarrow>
                 if isinstance exc OSError
                 then Inr \<lparr>status = u ''WARN'', detail = MSG_ENV_READ_FAILED @ exc_str exc\<rparr>
                 else Inl exc
             | Inr content \<Rightarrow>
                 (case scan_lines False (splitlines content) of
                    Inl exc \<Rightarrow> Inl exc
                  | Inr has_key \<Rightarrow>
                      if has_key
                      then Inr \<lparr>status = u ''OK'', detail = MSG_ENV_KEY_FOUND\<rparr>
                      else Inr \<lparr>status = u ''WARN'', detail = MSG_ENV_KEY_MISSING\<rparr>)))"

text \<open>
  The key function of the \<open>max\<close> in \<open>run_env_diagnostics\<close>:
  \<open>lambda status: STATUS_PRIORITY.get(status, 2)\<close>.
\<close>

definition status_priority :: "str \<Rightarrow> int" where
  "status_priority st = dict_get STATUS_PRIORITY st 2"

definition summary_messages :: "(str, str) dict" where
  "summary_messages =
     [(u ''OK'', MSG_SUMMARY_OK), (u ''WARN'', MSG_SUMMARY_WARN), (u ''FAIL'', MSG_SUMMARY_FAIL)]"

definition run_env_diagnostics :: "world \<Rightarrow> DiagnosticResult io" where
  "run_env_diagnostics w =
     (let config = load_default_config w;
          results = [];
          status_records = [];
          system_detail = platform_platform w;
          results = dict_setitem results (u ''system'')
                      \<lparr>status = u ''OK'', detail = system_detail\<rparr>;
          status_records = status_records @ [u ''OK''];
          python_version = replace_char (sys_version w) 0x0A 0x20;
          results = dict_setitem results (u ''python'')
                      \<lparr>status = u ''OK'', detail = python_version\<rparr>;
          status_records = status_records @ [u ''OK'']
      in
      bind_io (run_command w [u ''node'', u ''--version'']) (\<lambda>(node_success, node_output).
      let (results, status_records) =
            (if node_success
             then (dict_setitem results (u ''node'')
                     \<lparr>status = u ''OK'', detail = node_output\<rparr>,
                   status_records @ [u ''OK''])
             else (dict_setitem results (u ''node'')
                     \<lparr>status = u ''WARN'', detail = MSG_NODE_MISSING\<rparr>,
                   status_records @ [u ''WARN'']))
      in
      bind_io (run_command w [u ''npm'', u ''--version'']) (\<lambda>(npm_success, npm_output).
      let (results, status_records) =
            (if npm_success
             then (dict_setitem results (u ''npm'')
                     \<lparr>status = u ''OK'', detail = npm_output\<rparr>,
                   status_records @ [u ''OK''])
             else (dict_setitem results (u ''npm'')
                     \<lparr>status = u ''WARN'', detail = MSG_NPM_MISSING\<rparr>,
                   status_records @ [u ''WARN'']))
      in
      bind_io (run_command w [sys_executable w, u ''-m'', u ''pip'', u ''--version''])
        (\<lambda>(pip_success, pip_output).
      let (results, status_records) =
            (if pip_success
             then (dict_setitem results (u ''pip'')
                     \<lparr>status = u ''OK'', detail = pip_output\<rparr>,
                   status_records @ [u ''OK''])
             else (dict_setitem results (u ''pip'')
                     \<lparr>status = u ''FAIL'', detail = MSG_PIP_MISSING\<rparr>,
                   status_records @ [u ''FAIL'']))
      in
      bind_io (detect_gpu_status w) (\<lambda>gpu_result.
      let results = dict_setitem results (u ''gpu'') gpu_result;
          status_records = status_records @ [status gpu_result]
      in
      bind_io (lift_io (check_env_file w config)) (\<lambda>env_result.
      let results = dict_setitem results (u ''env_file'') env_result;
          status_records = status_records @ [status env_result]
      in
      bind_io (lift_io (py_max status_priority status_records)) (\<lambda>highest_status.
      let summary_detail = dict_get summary_messages highest_status MSG_SUMMARY_UNKNOWN;
          results = dict_setitem results (u ''summary'')
                      \<lparr>status = highest_status, detail = summary_detail\<rparr>
      in return_io results)))))))"

section \<open>heartlink\_cli.py\<close>

definition COLOR_MAP :: "(str, str) dict" where
  "COLOR_MAP =
     [(u ''OK'', 0x1B # u ''[92m''),
      (u ''WARN'', 0x1B # u ''[93m''),
      (u ''FAIL'', 0x1B # u ''[91m''),
      (u ''RESET'', 0x1B # u ''[0m'')]"

text \<open>
  \<open>display_results\<close> prints one line per entry of the dictionary. The state is the
  list of the lines printed so far.
\<close>

fun display_results :: "DiagnosticResult \<Rightarrow> str list \<Rightarrow> (py_exc + unit) \<times> str list" where
  "display_results [] out = (Inr (), out)"
| "display_results ((name, entry) # rest) out =
     (let st = status entry in
      case dict_getitem COLOR_MAP (u ''RESET'') of
        Inl exc \<Rightarrow> (Inl exc, out)
      | Inr dflt \<Rightarrow>
          (let color = dict_get COLOR_MAP st dflt in
           case dict_getitem COLOR_MAP (u ''RESET'') of
             Inl exc \<Rightarrow> (Inl exc, out)
           | Inr reset \<Rightarrow>
               display_results rest
                 (out @ [color @ ljust 10 name @ u '' ['' @ st @ u ''] '' @ detail entry @ reset])))"

section \<open>Hosts\<close>

text \<open>
  A host on which \<open>node\<close>, \<open>npm\<close> and \<open>pip\<close> answer, \<open>torch\<close> is not
  installed, \<open>nvidia-smi\<close> is not on the path and the project has no \<open>.env\<close> file.
\<close>

definition typical_subprocess_run :: "str list \<Rightarrow> run_result" where
  "typical_subprocess_run command =
     (if command = [u ''node'', u ''--version'']
        then CompletedProcess 0 (u ''v18.17.0'' @ [0x0A]) []
      else if command = [u ''npm'', u ''--version'']
        then CompletedProcess 0 (u ''9.6.7'' @ [0x0A]) []
      else if command = [u ''/usr/bin/python3'', u ''-m'', u ''pip'', u ''--version'']
        then CompletedProcess 0 (u ''pip 23.1.2 (python 3.11)'' @ [0x0A]) []
      else Raises (Exc FileNotFoundError (u ''[Errno 2] No such file or directory'')))"

definition host_typical :: world where
  "host_typical =
     \<lparr>platform_platform = u ''Linux-6.1.0-x86_64-with-glibc2.36'',
      sys_version = u ''3.11.4 (main, Jun  7 2023)'' @ 0x0A # u ''[GCC 12.2.0]'',
      sys_executable = u ''/usr/bin/python3'',
      PROJECT_ROOT = [u ''srv'', u ''heartlink''],
      subprocess_run = typical_subprocess_run,
      find_spec_torch = False,
      import_torch = Some (Exc ImportError (u ''No module named torch'')),
      cuda_is_available = Inr False,
      cuda_get_device_name = (\<lambda>i. Inl (Exc RuntimeError (u ''No CUDA GPUs are available''))),
      path_exists = (\<lambda>p. Inr False),
      path_read_text = (\<lambda>p. Inl (Exc FileNotFoundError (u ''[Errno 2] No such file or directory'')))\<rparr>"

text \<open>The same host with \<open>pip\<close> broken: the command exits with status 1.\<close>

definition host_without_pip :: world where
  "host_without_pip =
     host_typical
       \<lparr>subprocess_run :=
          (\<lambda>command.
             if command = [u ''/usr/bin/python3'', u ''-m'', u ''pip'', u ''--version'']
             then CompletedProcess 1 [] (u ''/usr/bin/python3: No module named pip'' @ [0x0A])
             else typical_subprocess_run command)\<rparr>"

text \<open>
  The same host with a file \<open>node\<close> on the path that the user may not execute:
  \<open>subprocess.run\<close> raises \<open>PermissionError\<close>.
\<close>

definition host_node_not_executable :: world where
  "host_node_not_executable =
     host_typical
       \<lparr>subprocess_run :=
          (\<lambda>command.
             if command = [u ''node'', u ''--version'']
             then Raises (Exc PermissionError
                            (u ''[Errno 13] Permission denied: '' @ [0x27] @ u ''node'' @ [0x27]))
             else typical_subprocess_run command)\<rparr>"

text \<open>
  The same host with a \<open>.env\<close> file that is not valid UTF-8 (a file saved in another
  encoding): \<open>read_text(encoding="utf-8")\<close> raises \<open>UnicodeDecodeError\<close>.
\<close>

definition host_env_not_utf8 :: world where
  "host_env_not_utf8 =
     host_typical
       \<lparr>path_exists := (\<lambda>p. Inr (p = [u ''srv'', u ''heartlink'', u ''.env''])),
        path_read_text :=
          (\<lambda>p. Inl (Exc UnicodeDecodeError
                        (u ''utf-8 codec cannot decode byte 0xc3 in position 15'')))\<rparr>"

text \<open>
  The same host with a project directory that the user may not search: the \<open>stat\<close>
  behind \<open>exists()\<close> fails with \<open>EACCES\<close>, and \<open>exists()\<close> raises
  \<open>PermissionError\<close>.
\<close>

definition host_env_dir_forbidden :: world where
  "host_env_dir_forbidden =
     host_typical
       \<lparr>path_exists := (\<lambda>p. Inl (Exc PermissionError (u ''[Errno 13] Permission denied'')))\<rparr>"

text \<open>
  The same host with a \<open>.env\<close> file of three lines: a comment, the key with a value
  between spaces, and the key again with no value.
\<close>

definition env_file_text :: str where
  "env_file_text =
     u ''# HeartLink'' @ [0x0A] @ u ''  OPENAI_API_KEY=  sk-abc  '' @ [0x0A]
       @ u ''OPENAI_API_KEY='' @ [0x0A]"

definition host_with_env_file :: world where
  "host_with_env_file =
     host_typical
       \<lparr>path_exists := (\<lambda>p. Inr (p = [u ''srv'', u ''heartlink'', u ''.env''])),
        path_read_text := (\<lambda>p. Inr env_file_text)\<rparr>"

text \<open>The same host with \<open>torch\<close> installed and one CUDA device.\<close>

definition host_with_cuda :: world where
  "host_with_cuda =
     host_typical
       \<lparr>find_spec_torch := True,
        import_torch := None,
        cuda_is_available := Inr True,
        cuda_get_device_name :=
          (\<lambda>i. if i = 0 then Inr (u ''NVIDIA A100'')
                else Inl (Exc RuntimeError (u ''Invalid device id'')))\<rparr>"

text \<open>The reports and the spawned commands expected on the first two hosts.\<close>

definition report_typical :: DiagnosticResult where
  "report_typical =
     [(u ''system'', \<lparr>status = u ''OK'', detail = u ''Linux-6.1.0-x86_64-with-glibc2.36''\<rparr>),
      (u ''python'',
       \<lparr>status = u ''OK'', detail = u ''3.11.4 (main, Jun  7 2023) [GCC 12.2.0]''\<rparr>),
      (u ''node'', \<lparr>status = u ''OK'', detail = u ''v18.17.0''\<rparr>),
      (u ''npm'', \<lparr>status = u ''OK'', detail = u ''9.6.7''\<rparr>),
      (u ''pip'', \<lparr>status = u ''OK'', detail = u ''pip 23.1.2 (python 3.11)''\<rparr>),
      (u ''gpu'', \<lparr>status = u ''WARN'', detail = MSG_GPU_MISSING\<rparr>),
      (u ''env_file'', \<lparr>status = u ''WARN'', detail = MSG_ENV_MISSING\<rparr>),
      (u ''summary'', \<lparr>status = u ''WARN'', detail = MSG_SUMMARY_WARN\<rparr>)]"

definition report_without_pip :: DiagnosticResult where
  "report_without_pip =
     [(u ''system'', \<lparr>status = u ''OK'', detail = u ''Linux-6.1.0-x86_64-with-glibc2.36''\<rparr>),
      (u ''python'',
       \<lparr>status = u ''OK'', detail = u ''3.11.4 (main, Jun  7 2023) [GCC 12.2.0]''\<rparr>),
      (u ''node'', \<lparr>status = u ''OK'', detail = u ''v18.17.0''\<rparr>),
      (u ''npm'', \<lparr>status = u ''OK'', detail = u ''9.6.7''\<rparr>),
      (u ''pip'', \<lparr>status = u ''FAIL'', detail = MSG_PIP_MISSING\<rparr>),
      (u ''gpu'', \<lparr>status = u ''WARN'', detail = MSG_GPU_MISSING\<rparr>),
      (u ''env_file'', \<lparr>status = u ''WARN'', detail = MSG_ENV_MISSING\<rparr>),
      (u ''summary'', \<lparr>status = u ''FAIL'', detail = MSG_SUMMARY_FAIL\<rparr>)]"

definition calls_typical :: calls where
  "calls_typical =
     [[u ''node'', u ''--version''],
      [u ''npm'', u ''--version''],
      [u ''/usr/bin/python3'', u ''-m'', u ''pip'', u ''--version''],
      [u ''nvidia-smi'']]"

section \<open>Notions used to state the properties\<close>

text \<open>
  The outcomes of \<open>subprocess.run\<close> that \<open>_run_command\<close> turns into a pair: the
  process ran and exited, or the exception raised is one of the two classes its
  \<open>except\<close> clause names.
\<close>

definition command_returns :: "world \<Rightarrow> str list \<Rightarrow> bool" where
  "command_returns w command =
     (case subprocess_run w command of
        CompletedProcess returncode stdout stderr \<Rightarrow> True
      | Raises exc \<Rightarrow> isinstance exc FileNotFoundError \<or> isinstance exc SubprocessError)"

text \<open>The command ran and exited with status 0.\<close>

definition exits_zero :: "world \<Rightarrow> str list \<Rightarrow> bool" where
  "exits_zero w command =
     (case subprocess_run w command of
        CompletedProcess returncode stdout stderr \<Rightarrow> returncode = 0
      | Raises exc \<Rightarrow> False)"

text \<open>
  Every exception that the outside world raises during one run is of a class that the
  \<open>except\<close> clause around it names: for the four commands, for the read of the
  \<open>.env\<close> file. The existence test of that file has no \<open>except\<close> clause around
  it, so it must raise nothing.
\<close>

definition faults_are_caught :: "world \<Rightarrow> bool" where
  "faults_are_caught w =
     (command_returns w [u ''node'', u ''--version'']
      \<and> command_returns w [u ''npm'', u ''--version'']
      \<and> command_returns w [sys_executable w, u ''-m'', u ''pip'', u ''--version'']
      \<and> (find_spec_torch w \<or> command_returns w [u ''nvidia-smi''])
      \<and> (case path_exists w (env_path (load_default_config w)) of
             Inl exc \<Rightarrow> False
           | Inr present \<Rightarrow>
               \<not> present
               \<or> (case path_read_text w (env_path (load_default_config w)) of
                     Inl exc \<Rightarrow> isinstance exc OSError
                   | Inr content \<Rightarrow> True)))"

text \<open>The names of the records of a report, in the order in which the engine writes them.\<close>

definition report_names :: "str list" where
  "report_names =
     [u ''system'', u ''python'', u ''node'', u ''npm'', u ''pip'', u ''gpu'', u ''env_file'',
      u ''summary'']"

text \<open>
  The specification's wording of the alignment in the coloured view, "the name is
  left-padded to a fixed minimum width": the padding goes to the left of the name. This
  definition follows the specification's words and is compared with what
  \<open>display_results\<close> prints.
\<close>

definition left_padded :: "nat \<Rightarrow> str \<Rightarrow> str" where
  "left_padded n s = replicate (n - length s) 0x20 @ s"

section \<open>Basic facts\<close>

lemma u_eq_iff [simp]: "u s = u t \<longleftrightarrow> s = t"
  by (simp add: u_def inj_map_eq_map inj_on_def)

lemma isinstance_Exception [simp]: "isinstance e Exception"
  by (cases e; rename_tac c m; case_tac c) simp_all

lemma status_priority_simps [simp]:
  "status_priority (u ''OK'') = 0"
  "status_priority (u ''WARN'') = 1"
  "status_priority (u ''FAIL'') = 2"
  by (simp_all add: status_priority_def STATUS_PRIORITY_def dict_get_def)

lemma status_priority_unrecognized:
  "st \<noteq> u ''OK'' \<Longrightarrow> st \<noteq> u ''WARN'' \<Longrightarrow> st \<noteq> u ''FAIL'' \<Longrightarrow> status_priority st = 2"
  by (simp add: status_priority_def STATUS_PRIORITY_def dict_get_def)

lemma status_priority_le_2: "status_priority st \<le> 2"
  by (simp add: status_priority_def STATUS_PRIORITY_def dict_get_def)

subsection \<open>The first maximal element\<close>

lemma max_from_mem: "max_from f b xs \<in> set (b # xs)"
  by (induction xs arbitrary: b) (auto split: if_splits)

lemma max_from_ge_best: "f b \<le> f (max_from f b xs)"
proof (induction xs arbitrary: b)
  case Nil
  show ?case by simp
next
  case (Cons x xs)
  show ?case using Cons.IH [of x] Cons.IH [of b] by auto
qed

lemma max_from_ge: "y \<in> set (b # xs) \<Longrightarrow> f y \<le> f (max_from f b xs)"
proof (induction xs arbitrary: b)
  case Nil
  then show ?case by simp
next
  case (Cons x xs)
  show ?case
  proof (cases "f x > f b")
    case True
    have "f x \<le> f (max_from f x xs)" by (rule max_from_ge_best)
    with True Cons show ?thesis by (auto simp: less_imp_le intro: order_trans)
  next
    case False
    have "f b \<le> f (max_from f b xs)" by (rule max_from_ge_best)
    with False Cons show ?thesis by (auto intro: order_trans)
  qed
qed

lemma max_from_top: "(\<And>y. y \<in> set xs \<Longrightarrow> f y \<le> f b) \<Longrightarrow> max_from f b xs = b"
  by (induction xs) (auto simp: not_less [symmetric])

lemma max_from_first:
  "\<exists>pre post. b # xs = pre @ max_from f b xs # post
      \<and> (\<forall>y\<in>set pre. f y < f (max_from f b xs))"
proof (induction xs arbitrary: b)
  case Nil
  have "[b] = [] @ max_from f b [] # []" by simp
  then show ?case by fastforce
next
  case (Cons x xs)
  show ?case
  proof (cases "f x > f b")
    case True
    then have m: "max_from f b (x # xs) = max_from f x xs" by simp
    from Cons.IH [of x] obtain pre post where
      e: "x # xs = pre @ max_from f x xs # post" and
      l: "\<forall>y\<in>set pre. f y < f (max_from f x xs)"
      by blast
    have "f x \<le> f (max_from f x xs)" by (rule max_from_ge_best)
    with True have "f b < f (max_from f x xs)" by simp
    with l have "\<forall>y\<in>set (b # pre). f y < f (max_from f x xs)" by simp
    moreover from e have "b # x # xs = (b # pre) @ max_from f x xs # post" by simp
    ultimately show ?thesis unfolding m by blast
  next
    case False
    then have m: "max_from f b (x # xs) = max_from f b xs" by simp
    from Cons.IH [of b] obtain pre post where
      e: "b # xs = pre @ max_from f b xs # post" and
      l: "\<forall>y\<in>set pre. f y < f (max_from f b xs)"
      by blast
    show ?thesis
    proof (cases pre)
      case Nil
      with e have "max_from f b xs = b" by (metis append_Nil list.inject)
      then have "b # x # xs = [] @ max_from f b xs # x # xs" by simp
      then show ?thesis unfolding m by fastforce
    next
      case (Cons p pre')
      with e have p: "p = b" and xs: "xs = pre' @ max_from f b xs # post"
        by (metis append_Cons list.inject)+
      from l Cons p have "f b < f (max_from f b xs)" by simp
      with False have "f x < f (max_from f b xs)" by simp
      with l Cons p have "\<forall>y\<in>set (b # x # pre'). f y < f (max_from f b xs)" by simp
      moreover from xs have "b # x # xs = (b # x # pre') @ max_from f b xs # post" by simp
      ultimately show ?thesis unfolding m by blast
    qed
  qed
qed

lemma py_max_first:
  assumes "xs \<noteq> []"
  shows "\<exists>pre hi post. py_max f xs = Inr hi \<and> xs = pre @ hi # post
           \<and> (\<forall>y\<in>set pre. f y < f hi) \<and> (\<forall>y\<in>set post. f y \<le> f hi)"
proof -
  from assms obtain b bs where xs: "xs = b # bs" by (cases xs) auto
  from max_from_first [of b bs f] obtain pre post where
    e: "b # bs = pre @ max_from f b bs # post" and
    l: "\<forall>y\<in>set pre. f y < f (max_from f b bs)"
    by blast
  have "\<forall>y\<in>set post. f y \<le> f (max_from f b bs)"
  proof
    fix y assume "y \<in> set post"
    then have "y \<in> set (pre @ max_from f b bs # post)" by simp
    with e have "y \<in> set (b # bs)" by simp
    then show "f y \<le> f (max_from f b bs)" by (rule max_from_ge)
  qed
  with e l xs show ?thesis by (metis py_max.simps(2))
qed

lemma py_max_Max:
  "xs \<noteq> [] \<Longrightarrow> \<exists>hi. py_max f xs = Inr hi \<and> hi \<in> set xs \<and> f hi = Max (f ` set xs)"
proof -
  assume "xs \<noteq> []"
  then obtain b bs where xs: "xs = b # bs" by (cases xs) auto
  have "f (max_from f b bs) = Max (f ` set (b # bs))"
    by (rule Max_eqI [symmetric]) (use max_from_ge [of _ b bs f] max_from_mem [of f b bs] in auto)
  with xs max_from_mem [of f b bs] show ?thesis by simp
qed

lemma max_from_FAIL_first:
  assumes "\<forall>y\<in>set pre. y = u ''OK'' \<or> y = u ''WARN'' \<or> y = u ''FAIL''"
    and "b = u ''OK'' \<or> b = u ''WARN'' \<or> b = u ''FAIL''"
  shows "max_from status_priority b (pre @ u ''FAIL'' # post) = u ''FAIL''"
  using assms
proof (induction pre arbitrary: b)
  case Nil
  have top: "max_from status_priority (u ''FAIL'') post = u ''FAIL''"
    by (rule max_from_top) (simp add: status_priority_le_2)
  from Nil(2) show ?case by (auto simp: top)
next
  case (Cons x pre)
  then show ?case by simp
qed

subsection \<open>The value of the key line\<close>

lemma split_once_from_eq:
  "split_once_from acc sep s =
     (if sep \<in> set s
      then [acc @ takeWhile (\<lambda>c. c \<noteq> sep) s, tl (dropWhile (\<lambda>c. c \<noteq> sep) s)]
      else [acc @ s])"
  by (induction s arbitrary: acc) auto

lemma split_once_eq:
  "split_once s sep =
     (if sep \<in> set s
      then [takeWhile (\<lambda>c. c \<noteq> sep) s, tl (dropWhile (\<lambda>c. c \<noteq> sep) s)]
      else [s])"
  by (simp add: split_once_def split_once_from_eq)

lemma startswith_iff: "startswith s p \<longleftrightarrow> (\<exists>t. s = p @ t)"
  unfolding startswith_def by (metis append_eq_conv_conj)

lemma key_has_equals: "0x3D \<in> set (u ''OPENAI_API_KEY='')"
  by (simp add: u_def)

lemma dropWhile_key:
  "dropWhile (\<lambda>c. c \<noteq> 0x3D) (u ''OPENAI_API_KEY='' @ t) = 0x3D # t"
  by (simp add: u_def)

lemma length_key: "length (u ''OPENAI_API_KEY='') = 15"
  by (simp add: u_def)

lemma value_after_key:
  assumes "startswith stripped (u ''OPENAI_API_KEY='')"
  shows "getitem (split_once stripped 0x3D) 1 = Inr (tl (dropWhile (\<lambda>c. c \<noteq> 0x3D) stripped))"
    and "tl (dropWhile (\<lambda>c. c \<noteq> 0x3D) stripped) = drop 15 stripped"
proof -
  from assms obtain t where s: "stripped = u ''OPENAI_API_KEY='' @ t"
    by (auto simp: startswith_iff)
  then have "0x3D \<in> set stripped" using key_has_equals by simp
  then show "getitem (split_once stripped 0x3D) 1 = Inr (tl (dropWhile (\<lambda>c. c \<noteq> 0x3D) stripped))"
    by (simp add: split_once_eq getitem_def)
  show "tl (dropWhile (\<lambda>c. c \<noteq> 0x3D) stripped) = drop 15 stripped"
    unfolding s by (simp add: dropWhile_key length_key)
qed

lemma scan_lines_find:
  "scan_lines has_key ls =
     Inr (case find (\<lambda>line. startswith (strip line) (u ''OPENAI_API_KEY='')) ls of
            None \<Rightarrow> has_key
          | Some line \<Rightarrow>
              if tl (dropWhile (\<lambda>c. c \<noteq> 0x3D) (strip line)) \<noteq> [] then True else has_key)"
  by (induction ls) (simp_all add: value_after_key(1) [unfolded One_nat_def] Let_def)

subsection \<open>The probes\<close>

lemma run_command_returns:
  "command_returns w c \<Longrightarrow> \<exists>ok out. run_command w c s = (Inr (ok, out), s @ [c])"
  by (auto simp: command_returns_def run_command_def Let_def split: run_result.splits)

lemma run_command_calls: "snd (run_command w c s) = s @ [c]"
  by (auto simp: run_command_def Let_def split: run_result.splits)

lemma run_command_exits_zero:
  "run_command w c s = (Inr (ok, out), s') \<Longrightarrow> ok = exits_zero w c"
  by (auto simp: exits_zero_def run_command_def Let_def split: run_result.splits if_splits)

lemma detect_gpu_status_returns:
  "find_spec_torch w \<or> command_returns w [u ''nvidia-smi''] \<Longrightarrow>
     \<exists>gpu s'. detect_gpu_status w s = (Inr gpu, s')"
  by (auto simp: detect_gpu_status_def bind_io_def return_io_def command_returns_def
      run_command_def Let_def split: sum.splits run_result.splits)

lemma detect_gpu_status_status:
  "detect_gpu_status w s = (Inr r, s') \<Longrightarrow> status r = u ''OK'' \<or> status r = u ''WARN''"
  by (auto simp: detect_gpu_status_def query_torch_def bind_io_def return_io_def
      split: if_splits sum.splits option.splits prod.splits)

lemma check_env_file_status:
  "check_env_file w c = Inr r \<Longrightarrow> status r = u ''OK'' \<or> status r = u ''WARN''"
  by (auto simp: check_env_file_def Let_def split: if_splits sum.splits)

lemma check_env_file_returns:
  "(case path_exists w (env_path c) of
      Inl exc \<Rightarrow> False
    | Inr present \<Rightarrow>
        \<not> present
        \<or> (case path_read_text w (env_path c) of
              Inl exc \<Rightarrow> isinstance exc OSError
            | Inr content \<Rightarrow> True))
   \<Longrightarrow> \<exists>env. check_env_file w c = Inr env"
  by (auto simp: check_env_file_def Let_def scan_lines_find split: sum.splits)


subsection \<open>The engine, probe by probe\<close>

lemma run_env_diagnostics_unfold:
  "run_env_diagnostics w s =
    (case run_command w [u ''node'', u ''--version''] s of
       (Inl e, s1) \<Rightarrow> (Inl e, s1)
     | (Inr (node_ok, node_out), s1) \<Rightarrow>
    (case run_command w [u ''npm'', u ''--version''] s1 of
       (Inl e, s2) \<Rightarrow> (Inl e, s2)
     | (Inr (npm_ok, npm_out), s2) \<Rightarrow>
    (case run_command w [sys_executable w, u ''-m'', u ''pip'', u ''--version''] s2 of
       (Inl e, s3) \<Rightarrow> (Inl e, s3)
     | (Inr (pip_ok, pip_out), s3) \<Rightarrow>
    (case detect_gpu_status w s3 of
       (Inl e, s4) \<Rightarrow> (Inl e, s4)
     | (Inr gpu, s4) \<Rightarrow>
    (case check_env_file w (load_default_config w) of
       Inl e \<Rightarrow> (Inl e, s4)
     | Inr env \<Rightarrow>
    (case py_max status_priority
            [u ''OK'', u ''OK'', if node_ok then u ''OK'' else u ''WARN'',
             if npm_ok then u ''OK'' else u ''WARN'', if pip_ok then u ''OK'' else u ''FAIL'',
             status gpu, status env] of
       Inl e \<Rightarrow> (Inl e, s4)
     | Inr hi \<Rightarrow>
       (Inr [(u ''system'', \<lparr>status = u ''OK'', detail = platform_platform w\<rparr>),
            (u ''python'', \<lparr>status = u ''OK'', detail = replace_char (sys_version w) 0x0A 0x20\<rparr>),
            (u ''node'', if node_ok then \<lparr>status = u ''OK'', detail = node_out\<rparr>
                         else \<lparr>status = u ''WARN'', detail = MSG_NODE_MISSING\<rparr>),
            (u ''npm'', if npm_ok then \<lparr>status = u ''OK'', detail = npm_out\<rparr>
                        else \<lparr>status = u ''WARN'', detail = MSG_NPM_MISSING\<rparr>),
            (u ''pip'', if pip_ok then \<lparr>status = u ''OK'', detail = pip_out\<rparr>
                        else \<lparr>status = u ''FAIL'', detail = MSG_PIP_MISSING\<rparr>),
            (u ''gpu'', gpu),
            (u ''env_file'', env),
            (u ''summary'', \<lparr>status = hi, detail = dict_get summary_messages hi MSG_SUMMARY_UNKNOWN\<rparr>)],
        s4)))))))"
  unfolding run_env_diagnostics_def Let_def bind_io_def lift_io_def return_io_def
  by (simp split: prod.splits sum.splits del: py_max.simps)

lemma io_case_pair_InrE:
  assumes "(case m of (Inl e, t) \<Rightarrow> (Inl e, t) | (Inr (a, b), t) \<Rightarrow> k a b t) = (Inr r, s')"
  obtains a b t where "m = (Inr (a, b), t)" "k a b t = (Inr r, s')"
  using assms by (auto split: prod.splits sum.splits)

lemma io_case_InrE:
  assumes "(case m of (Inl e, t) \<Rightarrow> (Inl e, t) | (Inr x, t) \<Rightarrow> k x t) = (Inr r, s')"
  obtains x t where "m = (Inr x, t)" "k x t = (Inr r, s')"
  using assms by (auto split: prod.splits sum.splits)

lemma sum_case_InrE:
  assumes "(case v of Inl e \<Rightarrow> (Inl e, t) | Inr x \<Rightarrow> k x) = (Inr r, s')"
  obtains x where "v = Inr x" "k x = (Inr r, s')"
  using assms by (auto split: sum.splits)

lemma run_env_diagnostics_InrD:
  assumes "run_env_diagnostics w s = (Inr r, s')"
  shows "\<exists>node_ok node_out npm_ok npm_out pip_ok pip_out gpu env hi s1 s2 s3.
       run_command w [u ''node'', u ''--version''] s = (Inr (node_ok, node_out), s1)
     \<and> run_command w [u ''npm'', u ''--version''] s1 = (Inr (npm_ok, npm_out), s2)
     \<and> run_command w [sys_executable w, u ''-m'', u ''pip'', u ''--version''] s2
          = (Inr (pip_ok, pip_out), s3)
     \<and> detect_gpu_status w s3 = (Inr gpu, s')
     \<and> check_env_file w (load_default_config w) = Inr env
     \<and> py_max status_priority
          [u ''OK'', u ''OK'', if node_ok then u ''OK'' else u ''WARN'',
           if npm_ok then u ''OK'' else u ''WARN'', if pip_ok then u ''OK'' else u ''FAIL'',
           status gpu, status env] = Inr hi
     \<and> r = [(u ''system'', \<lparr>status = u ''OK'', detail = platform_platform w\<rparr>),
            (u ''python'', \<lparr>status = u ''OK'', detail = replace_char (sys_version w) 0x0A 0x20\<rparr>),
            (u ''node'', if node_ok then \<lparr>status = u ''OK'', detail = node_out\<rparr>
                         else \<lparr>status = u ''WARN'', detail = MSG_NODE_MISSING\<rparr>),
            (u ''npm'', if npm_ok then \<lparr>status = u ''OK'', detail = npm_out\<rparr>
                        else \<lparr>status = u ''WARN'', detail = MSG_NPM_MISSING\<rparr>),
            (u ''pip'', if pip_ok then \<lparr>status = u ''OK'', detail = pip_out\<rparr>
                        else \<lparr>status = u ''FAIL'', detail = MSG_PIP_MISSING\<rparr>),
            (u ''gpu'', gpu),
            (u ''env_file'', env),
            (u ''summary'', \<lparr>status = hi, detail = dict_get summary_messages hi MSG_SUMMARY_UNKNOWN\<rparr>)]"
  using assms unfolding run_env_diagnostics_unfold
  apply (elim io_case_pair_InrE io_case_InrE sum_case_InrE)
  apply (simp only: prod.inject sum.inject)
  apply (elim conjE)
  apply hypsubst
  apply (intro exI conjI)
        apply (assumption | rule refl)+
  done


lemma run_env_diagnostics_returns:
  assumes "faults_are_caught w"
  shows "\<exists>report s'. run_env_diagnostics w s = (Inr report, s')"
proof -
  let ?node = "[u ''node'', u ''--version'']"
  let ?npm = "[u ''npm'', u ''--version'']"
  let ?pip = "[sys_executable w, u ''-m'', u ''pip'', u ''--version'']"
  from assms have a1: "command_returns w ?node"
    and a2: "command_returns w ?npm"
    and a3: "command_returns w ?pip"
    and a4: "find_spec_torch w \<or> command_returns w [u ''nvidia-smi'']"
    and a5: "case path_exists w (env_path (load_default_config w)) of
               Inl exc \<Rightarrow> False
             | Inr present \<Rightarrow>
                 \<not> present
                 \<or> (case path_read_text w (env_path (load_default_config w)) of
                       Inl exc \<Rightarrow> isinstance exc OSError
                     | Inr content \<Rightarrow> True)"
    unfolding faults_are_caught_def by blast+
  from run_command_returns [OF a1, of s] obtain node_ok node_out where
    c1: "run_command w ?node s = (Inr (node_ok, node_out), s @ [?node])"
    by blast
  from run_command_returns [OF a2, of "s @ [?node]"] obtain npm_ok npm_out where
    c2: "run_command w ?npm (s @ [?node]) = (Inr (npm_ok, npm_out), s @ [?node] @ [?npm])"
    by auto
  from run_command_returns [OF a3, of "s @ [?node] @ [?npm]"] obtain pip_ok pip_out where
    c3: "run_command w ?pip (s @ [?node] @ [?npm])
           = (Inr (pip_ok, pip_out), s @ [?node] @ [?npm] @ [?pip])"
    by auto
  from detect_gpu_status_returns [OF a4, of "s @ [?node] @ [?npm] @ [?pip]"] obtain gpu s4 where
    c4: "detect_gpu_status w (s @ [?node] @ [?npm] @ [?pip]) = (Inr gpu, s4)"
    by blast
  from check_env_file_returns [OF a5] obtain env where
    c5: "check_env_file w (load_default_config w) = Inr env"
    by blast
  let ?sts = "[u ''OK'', u ''OK'', if node_ok then u ''OK'' else u ''WARN'',
           if npm_ok then u ''OK'' else u ''WARN'', if pip_ok then u ''OK'' else u ''FAIL'',
           status gpu, status env]"
  obtain hi where c6: "py_max status_priority ?sts = Inr hi"
    using py_max_Max [of ?sts status_priority] by blast
  show ?thesis
    unfolding run_env_diagnostics_unfold
    by (simp only: c1 c2 c3 c4 c5 c6 prod.case sum.case) (intro exI, rule refl)
qed

lemma report_statuses:
  assumes "run_env_diagnostics w s = (Inr report, s')"
  obtains node_st npm_st pip_st gpu_st env_st hi where
    "map fst report = report_names"
    "map (status \<circ> snd) report = [u ''OK'', u ''OK'', node_st, npm_st, pip_st, gpu_st, env_st, hi]"
    "node_st = u ''OK'' \<or> node_st = u ''WARN''"
    "npm_st = u ''OK'' \<or> npm_st = u ''WARN''"
    "pip_st = (if exits_zero w [sys_executable w, u ''-m'', u ''pip'', u ''--version''] then u ''OK'' else u ''FAIL'')"
    "gpu_st = u ''OK'' \<or> gpu_st = u ''WARN''"
    "env_st = u ''OK'' \<or> env_st = u ''WARN''"
    "py_max status_priority [u ''OK'', u ''OK'', node_st, npm_st, pip_st, gpu_st, env_st] = Inr hi"
proof -
  from run_env_diagnostics_InrD [OF assms] obtain
    node_ok node_out npm_ok npm_out pip_ok pip_out gpu env hi s1 s2 s3 where
    c3: "run_command w [sys_executable w, u ''-m'', u ''pip'', u ''--version''] s2
          = (Inr (pip_ok, pip_out), s3)"
    and c4: "detect_gpu_status w s3 = (Inr gpu, s')"
    and c5: "check_env_file w (load_default_config w) = Inr env"
    and c6: "py_max status_priority
          [u ''OK'', u ''OK'', if node_ok then u ''OK'' else u ''WARN'',
           if npm_ok then u ''OK'' else u ''WARN'', if pip_ok then u ''OK'' else u ''FAIL'',
           status gpu, status env] = Inr hi"
    and r: "report = [(u ''system'', \<lparr>status = u ''OK'', detail = platform_platform w\<rparr>),
            (u ''python'', \<lparr>status = u ''OK'', detail = replace_char (sys_version w) 0x0A 0x20\<rparr>),
            (u ''node'', if node_ok then \<lparr>status = u ''OK'', detail = node_out\<rparr>
                         else \<lparr>status = u ''WARN'', detail = MSG_NODE_MISSING\<rparr>),
            (u ''npm'', if npm_ok then \<lparr>status = u ''OK'', detail = npm_out\<rparr>
                        else \<lparr>status = u ''WARN'', detail = MSG_NPM_MISSING\<rparr>),
            (u ''pip'', if pip_ok then \<lparr>status = u ''OK'', detail = pip_out\<rparr>
                        else \<lparr>status = u ''FAIL'', detail = MSG_PIP_MISSING\<rparr>),
            (u ''gpu'', gpu),
            (u ''env_file'', env),
            (u ''summary'', \<lparr>status = hi, detail = dict_get summary_messages hi MSG_SUMMARY_UNKNOWN\<rparr>)]"
    by blast
  show thesis
  proof (rule that)
    show "map fst report = report_names" by (simp add: r report_names_def)
    show "map (status \<circ> snd) report =
       [u ''OK'', u ''OK'', if node_ok then u ''OK'' else u ''WARN'',
        if npm_ok then u ''OK'' else u ''WARN'', if pip_ok then u ''OK'' else u ''FAIL'',
        status gpu, status env, hi]"
      by (simp add: r)
    show "(if node_ok then u ''OK'' else u ''WARN'') = u ''OK'' \<or> (if node_ok then u ''OK'' else u ''WARN'') = u ''WARN''"
      by simp
    show "(if npm_ok then u ''OK'' else u ''WARN'') = u ''OK'' \<or> (if npm_ok then u ''OK'' else u ''WARN'') = u ''WARN''"
      by simp
    show "(if pip_ok then u ''OK'' else u ''FAIL'') =
       (if exits_zero w [sys_executable w, u ''-m'', u ''pip'', u ''--version''] then u ''OK'' else u ''FAIL'')"
      using run_command_exits_zero [OF c3] by simp
    show "status gpu = u ''OK'' \<or> status gpu = u ''WARN''" by (rule detect_gpu_status_status [OF c4])
    show "status env = u ''OK'' \<or> status env = u ''WARN''" by (rule check_env_file_status [OF c5])
    show "py_max status_priority
          [u ''OK'', u ''OK'', if node_ok then u ''OK'' else u ''WARN'',
           if npm_ok then u ''OK'' else u ''WARN'', if pip_ok then u ''OK'' else u ''FAIL'',
           status gpu, status env] = Inr hi" by (rule c6)
  qed
qed


lemma summary_is_py_max:
  assumes "run_env_diagnostics w s = (Inr report, s')"
  shows "map (status \<circ> snd) (butlast report) \<noteq> []"
    and "py_max status_priority (map (status \<circ> snd) (butlast report))
           = Inr (status (snd (last report)))"
proof -
  from report_statuses [OF assms] obtain node_st npm_st pip_st gpu_st env_st hi where
    names: "map fst report = report_names"
    and sts: "map (status \<circ> snd) report
                = [u ''OK'', u ''OK'', node_st, npm_st, pip_st, gpu_st, env_st, hi]"
    and node: "node_st = u ''OK'' \<or> node_st = u ''WARN''"
    and npm: "npm_st = u ''OK'' \<or> npm_st = u ''WARN''"
    and pip: "pip_st = (if exits_zero w [sys_executable w, u ''-m'', u ''pip'', u ''--version'']
                        then u ''OK'' else u ''FAIL'')"
    and gpu: "gpu_st = u ''OK'' \<or> gpu_st = u ''WARN''"
    and env: "env_st = u ''OK'' \<or> env_st = u ''WARN''"
    and hi: "py_max status_priority [u ''OK'', u ''OK'', node_st, npm_st, pip_st, gpu_st, env_st]
               = Inr hi"
    by blast
  from sts have ne: "report \<noteq> []" by auto
  from sts ne have l: "status (snd (last report)) = hi"
    using last_map [of report "status \<circ> snd"] by simp
  have bl: "map (status \<circ> snd) (butlast report)
              = [u ''OK'', u ''OK'', node_st, npm_st, pip_st, gpu_st, env_st]"
    unfolding map_butlast sts by simp
  show "map (status \<circ> snd) (butlast report) \<noteq> []" unfolding bl by simp
  show "py_max status_priority (map (status \<circ> snd) (butlast report))
          = Inr (status (snd (last report)))"
    unfolding bl l by (rule hi)
qed

subsection \<open>The run on the typical host\<close>

lemma strip_outputs:
  "strip (u ''v18.17.0'' @ [0x0A]) = u ''v18.17.0''"
  "strip (u ''9.6.7'' @ [0x0A]) = u ''9.6.7''"
  "strip (u ''pip 23.1.2 (python 3.11)'' @ [0x0A]) = u ''pip 23.1.2 (python 3.11)''"
  "strip (u ''/usr/bin/python3: No module named pip'' @ [0x0A])
     = u ''/usr/bin/python3: No module named pip''"
  "strip [] = []"
  by (simp_all add: strip_def lstrip_def rstrip_def is_space_def u_def)

lemma replace_char_version:
  "replace_char (u ''3.11.4 (main, Jun  7 2023)'' @ 0x0A # u ''[GCC 12.2.0]'') 0x0A 0x20
     = u ''3.11.4 (main, Jun  7 2023) [GCC 12.2.0]''"
  by (simp add: replace_char_def u_def)

lemma host_typical_commands:
  "run_command host_typical [u ''node'', u ''--version''] s
     = (Inr (True, u ''v18.17.0''), s @ [[u ''node'', u ''--version'']])"
  "run_command host_typical [u ''npm'', u ''--version''] s
     = (Inr (True, u ''9.6.7''), s @ [[u ''npm'', u ''--version'']])"
  "run_command host_typical [u ''/usr/bin/python3'', u ''-m'', u ''pip'', u ''--version''] s
     = (Inr (True, u ''pip 23.1.2 (python 3.11)''),
        s @ [[u ''/usr/bin/python3'', u ''-m'', u ''pip'', u ''--version'']])"
  "run_command host_typical [u ''nvidia-smi''] s
     = (Inr (False, u ''[Errno 2] No such file or directory''), s @ [[u ''nvidia-smi'']])"
  by (simp_all add: run_command_def host_typical_def typical_subprocess_run_def strip_outputs)

lemma host_typical_probes:
  "detect_gpu_status host_typical s
     = (Inr \<lparr>status = u ''WARN'', detail = MSG_GPU_MISSING\<rparr>, s @ [[u ''nvidia-smi'']])"
  "check_env_file host_typical (load_default_config host_typical)
     = Inr \<lparr>status = u ''WARN'', detail = MSG_ENV_MISSING\<rparr>"
   apply (simp add: detect_gpu_status_def bind_io_def return_io_def host_typical_commands)
   apply (simp add: host_typical_def)
  apply (simp add: check_env_file_def host_typical_def)
  done

lemma host_typical_fields:
  "sys_executable host_typical = u ''/usr/bin/python3''"
  "platform_platform host_typical = u ''Linux-6.1.0-x86_64-with-glibc2.36''"
  "sys_version host_typical = u ''3.11.4 (main, Jun  7 2023)'' @ 0x0A # u ''[GCC 12.2.0]''"
  by (simp_all add: host_typical_def)

lemma host_typical_run:
  "run_env_diagnostics host_typical [] = (Inr report_typical, calls_typical)"
  unfolding run_env_diagnostics_unfold
  by (simp add: host_typical_fields host_typical_commands host_typical_probes
      replace_char_version report_typical_def calls_typical_def summary_messages_def dict_get_def)


subsection \<open>The run on the host without pip\<close>

lemma host_without_pip_fields:
  "sys_executable host_without_pip = u ''/usr/bin/python3''"
  "platform_platform host_without_pip = u ''Linux-6.1.0-x86_64-with-glibc2.36''"
  "sys_version host_without_pip = u ''3.11.4 (main, Jun  7 2023)'' @ 0x0A # u ''[GCC 12.2.0]''"
  by (simp_all add: host_without_pip_def host_typical_def)

lemma host_without_pip_commands:
  "run_command host_without_pip [u ''node'', u ''--version''] s
     = (Inr (True, u ''v18.17.0''), s @ [[u ''node'', u ''--version'']])"
  "run_command host_without_pip [u ''npm'', u ''--version''] s
     = (Inr (True, u ''9.6.7''), s @ [[u ''npm'', u ''--version'']])"
  "run_command host_without_pip [u ''/usr/bin/python3'', u ''-m'', u ''pip'', u ''--version''] s
     = (Inr (False, u ''/usr/bin/python3: No module named pip''),
        s @ [[u ''/usr/bin/python3'', u ''-m'', u ''pip'', u ''--version'']])"
  "run_command host_without_pip [u ''nvidia-smi''] s
     = (Inr (False, u ''[Errno 2] No such file or directory''), s @ [[u ''nvidia-smi'']])"
  by (simp_all add: run_command_def host_without_pip_def typical_subprocess_run_def strip_outputs)

lemma host_without_pip_probes:
  "detect_gpu_status host_without_pip s
     = (Inr \<lparr>status = u ''WARN'', detail = MSG_GPU_MISSING\<rparr>, s @ [[u ''nvidia-smi'']])"
  "check_env_file host_without_pip (load_default_config host_without_pip)
     = Inr \<lparr>status = u ''WARN'', detail = MSG_ENV_MISSING\<rparr>"
   apply (simp add: detect_gpu_status_def bind_io_def return_io_def host_without_pip_commands)
   apply (simp add: host_without_pip_def host_typical_def)
  apply (simp add: check_env_file_def host_without_pip_def host_typical_def)
  done

lemma host_without_pip_run:
  "run_env_diagnostics host_without_pip [] = (Inr report_without_pip, calls_typical)"
  unfolding run_env_diagnostics_unfold
  by (simp add: host_without_pip_fields host_without_pip_commands host_without_pip_probes
      replace_char_version report_without_pip_def calls_typical_def summary_messages_def
      dict_get_def)

lemma host_without_pip_faults_are_caught: "faults_are_caught host_without_pip"
  by (simp add: faults_are_caught_def command_returns_def host_without_pip_def
      host_typical_def typical_subprocess_run_def load_default_config_def)

lemma host_typical_exits_zero:
  "exits_zero host_typical [sys_executable host_typical, u ''-m'', u ''pip'', u ''--version'']"
  by (simp add: exits_zero_def host_typical_def typical_subprocess_run_def)

subsection \<open>The coloured view\<close>

lemma COLOR_MAP_RESET: "dict_getitem COLOR_MAP (u ''RESET'') = Inr (0x1B # u ''[0m'')"
  by (simp add: dict_getitem_def COLOR_MAP_def)

lemma COLOR_MAP_get:
  "dict_get COLOR_MAP st (0x1B # u ''[0m'') =
     (if st = u ''OK'' then 0x1B # u ''[92m''
      else if st = u ''WARN'' then 0x1B # u ''[93m''
      else if st = u ''FAIL'' then 0x1B # u ''[91m''
      else 0x1B # u ''[0m'')"
  by (simp add: dict_get_def COLOR_MAP_def)

lemma replicate_7: "replicate 7 x = [x, x, x, x, x, x, x]"
  by (simp add: eval_nat_numeral)

lemma display_results_eq:
  "display_results report out =
     (Inr (),
      out @ map (\<lambda>(name, entry).
                   (if status entry = u ''OK'' then 0x1B # u ''[92m''
                    else if status entry = u ''WARN'' then 0x1B # u ''[93m''
                    else if status entry = u ''FAIL'' then 0x1B # u ''[91m''
                    else 0x1B # u ''[0m'')
                   @ name @ replicate (10 - length name) 0x20
                   @ u '' ['' @ status entry @ u ''] '' @ detail entry
                   @ 0x1B # u ''[0m'')
              report)"
proof (induction report arbitrary: out)
  case Nil
  show ?case by simp
next
  case (Cons p report)
  obtain name entry where p: "p = (name, entry)" by (cases p)
  show ?case
    unfolding p
    by (simp add: COLOR_MAP_RESET COLOR_MAP_get Cons.IH ljust_def Let_def del: append_assoc)
qed

subsection \<open>Stripping the key line\<close>

lemma rstrip_append:
  "rstrip (a @ b) = (if \<forall>c\<in>set b. is_space c then rstrip a else a @ rstrip b)"
  by (simp add: rstrip_def dropWhile_append)

lemma rstrip_eq_Nil_iff: "rstrip v = [] \<longleftrightarrow> (\<forall>c\<in>set v. is_space c)"
  by (simp add: rstrip_def dropWhile_eq_Nil_conv)

lemma lstrip_append_spaces: "\<forall>c\<in>set a. is_space c \<Longrightarrow> lstrip (a @ b) = lstrip b"
  by (simp add: lstrip_def dropWhile_append)

lemma lstrip_key: "lstrip (u ''OPENAI_API_KEY='' @ t) = u ''OPENAI_API_KEY='' @ t"
  by (simp add: lstrip_def u_def is_space_def)

lemma rstrip_key: "rstrip (u ''OPENAI_API_KEY='') = u ''OPENAI_API_KEY=''"
  by (simp add: rstrip_def u_def is_space_def)

lemma strip_key_line:
  assumes "\<forall>c\<in>set indent. is_space c"
  shows "strip (indent @ u ''OPENAI_API_KEY='' @ v) = u ''OPENAI_API_KEY='' @ rstrip v"
proof -
  have "strip (indent @ u ''OPENAI_API_KEY='' @ v) = rstrip (u ''OPENAI_API_KEY='' @ v)"
    by (simp add: strip_def lstrip_append_spaces [OF assms] lstrip_key)
  also have "\<dots> = u ''OPENAI_API_KEY='' @ rstrip v"
    using rstrip_eq_Nil_iff [of v] by (simp add: rstrip_append rstrip_key)
  finally show ?thesis .
qed

lemma find_first_match:
  "\<forall>x\<in>set xs. \<not> P x \<Longrightarrow> P y \<Longrightarrow> find P (xs @ y # ys) = Some y"
  by (induction xs) auto

lemma check_env_file_eq:
  "check_env_file w config =
     (case path_exists w (env_path config) of
        Inl exc \<Rightarrow> Inl exc
      | Inr present \<Rightarrow>
          if \<not> present then
            Inr \<lparr>status = u ''WARN'', detail = MSG_ENV_MISSING\<rparr>
          else
            (case path_read_text w (env_path config) of
               Inl exc \<Rightarrow>
                 if isinstance exc OSError
                 then Inr \<lparr>status = u ''WARN'', detail = MSG_ENV_READ_FAILED @ exc_str exc\<rparr>
                 else Inl exc
             | Inr content \<Rightarrow>
                 Inr (case find (\<lambda>line. startswith (strip line) (u ''OPENAI_API_KEY=''))
                             (splitlines content) of
                        None \<Rightarrow> \<lparr>status = u ''WARN'', detail = MSG_ENV_KEY_MISSING\<rparr>
                      | Some line \<Rightarrow>
                          if tl (dropWhile (\<lambda>c. c \<noteq> 0x3D) (strip line)) \<noteq> []
                          then \<lparr>status = u ''OK'', detail = MSG_ENV_KEY_FOUND\<rparr>
                          else \<lparr>status = u ''WARN'', detail = MSG_ENV_KEY_MISSING\<rparr>)))"
  by (simp add: check_env_file_def scan_lines_find Let_def split: sum.splits option.splits)

subsection \<open>The host with a secrets file\<close>

lemma splitlines_env_file_text:
  "splitlines env_file_text =
     [u ''# HeartLink'', u ''  OPENAI_API_KEY=  sk-abc  '', u ''OPENAI_API_KEY='']"
  by (simp add: splitlines_def env_file_text_def u_def is_linebreak_def)

lemma host_with_env_file_fields:
  "path_exists host_with_env_file (env_path (load_default_config host_with_env_file))
     = Inr True"
  "path_read_text host_with_env_file (env_path (load_default_config host_with_env_file))
     = Inr env_file_text"
  by (simp_all add: host_with_env_file_def host_typical_def load_default_config_def)

lemma strip_env_lines:
  "strip (u ''# HeartLink'') = u ''# HeartLink''"
  "strip (u ''  OPENAI_API_KEY=  sk-abc  '') = u ''OPENAI_API_KEY=  sk-abc''"
  by (simp_all add: strip_def lstrip_def rstrip_def is_space_def u_def)

text \<open>The contents that the specification lists as test cases.\<close>

lemma scan_lines_examples:
  "scan_lines False (splitlines (u ''OPENAI_API_KEY=abc123'' @ [0x0A])) = Inr True"
  "scan_lines False (splitlines (u ''OPENAI_API_KEY='' @ [0x0A])) = Inr False"
  "scan_lines False (splitlines (u ''OTHER_KEY=abc123'' @ [0x0A])) = Inr False"
  by (simp_all add: splitlines_def is_linebreak_def strip_def lstrip_def rstrip_def is_space_def
      startswith_def split_once_def getitem_def u_def)


section \<open>The summary record\<close>




text \<open>
  Claim C5. In every report that \<open>run_env_diagnostics\<close> returns, the status of the
  summary is \<open>FAIL\<close> exactly when the status of the \<open>pip\<close> record is
  \<open>FAIL\<close>, which is exactly when the \<open>pip\<close> command did not run and exit with
  status 0. When the \<open>pip\<close> probe succeeds the summary is \<open>OK\<close> or \<open>WARN\<close>,
  whatever the \<open>node\<close>, \<open>npm\<close>, GPU and \<open>.env\<close> probes found.
\<close>

theorem summary_FAIL_only_from_pip:
  assumes "run_env_diagnostics w s = (Inr report, s')"
  shows "\<exists>pip summary.
           map_of report (u ''pip'') = Some pip
         \<and> map_of report (u ''summary'') = Some summary
         \<and> (status pip = u ''FAIL'')
              = (\<not> exits_zero w [sys_executable w, u ''-m'', u ''pip'', u ''--version''])
         \<and> (status summary = u ''FAIL'') = (status pip = u ''FAIL'')
         \<and> (status pip = u ''FAIL'' \<or> status summary = u ''OK'' \<or> status summary = u ''WARN'')"
proof -
  from run_env_diagnostics_InrD [OF assms] obtain
    node_ok node_out npm_ok npm_out pip_ok pip_out gpu env hi s1 s2 s3 where
    c3: "run_command w [sys_executable w, u ''-m'', u ''pip'', u ''--version''] s2
          = (Inr (pip_ok, pip_out), s3)"
    and c4: "detect_gpu_status w s3 = (Inr gpu, s')"
    and c5: "check_env_file w (load_default_config w) = Inr env"
    and c6: "py_max status_priority
          [u ''OK'', u ''OK'', if node_ok then u ''OK'' else u ''WARN'',
           if npm_ok then u ''OK'' else u ''WARN'', if pip_ok then u ''OK'' else u ''FAIL'',
           status gpu, status env] = Inr hi"
    and r: "report = [(u ''system'', \<lparr>status = u ''OK'', detail = platform_platform w\<rparr>),
            (u ''python'', \<lparr>status = u ''OK'', detail = replace_char (sys_version w) 0x0A 0x20\<rparr>),
            (u ''node'', if node_ok then \<lparr>status = u ''OK'', detail = node_out\<rparr>
                         else \<lparr>status = u ''WARN'', detail = MSG_NODE_MISSING\<rparr>),
            (u ''npm'', if npm_ok then \<lparr>status = u ''OK'', detail = npm_out\<rparr>
                        else \<lparr>status = u ''WARN'', detail = MSG_NPM_MISSING\<rparr>),
            (u ''pip'', if pip_ok then \<lparr>status = u ''OK'', detail = pip_out\<rparr>
                        else \<lparr>status = u ''FAIL'', detail = MSG_PIP_MISSING\<rparr>),
            (u ''gpu'', gpu),
            (u ''env_file'', env),
            (u ''summary'', \<lparr>status = hi, detail = dict_get summary_messages hi MSG_SUMMARY_UNKNOWN\<rparr>)]"
    by blast
  define node_st where "node_st = (if node_ok then u ''OK'' else u ''WARN'')"
  define npm_st where "npm_st = (if npm_ok then u ''OK'' else u ''WARN'')"
  define pip_st where "pip_st = (if pip_ok then u ''OK'' else u ''FAIL'')"
  define pip where "pip = (if pip_ok then \<lparr>status = u ''OK'', detail = pip_out\<rparr>
              else \<lparr>status = u ''FAIL'', detail = MSG_PIP_MISSING\<rparr>)"
  define summary where
    "summary = \<lparr>status = hi, detail = dict_get summary_messages hi MSG_SUMMARY_UNKNOWN\<rparr>"
  let ?others = "[u ''OK'', u ''OK'', node_st, npm_st, pip_st, status gpu, status env]"
  have m1: "map_of report (u ''pip'') = Some pip"
    unfolding r pip_def by simp
  have m2: "map_of report (u ''summary'') = Some summary"
    unfolding r summary_def by simp
  have ok: "pip_ok = exits_zero w [sys_executable w, u ''-m'', u ''pip'', u ''--version'']"
    by (rule run_command_exits_zero [OF c3])
  have sp: "status pip = pip_st" by (simp add: pip_def pip_st_def)
  have ss: "status summary = hi" by (simp add: summary_def)
  have node: "node_st = u ''OK'' \<or> node_st = u ''WARN''" by (simp add: node_st_def)
  have npm: "npm_st = u ''OK'' \<or> npm_st = u ''WARN''" by (simp add: npm_st_def)
  have pf: "(pip_st = u ''FAIL'') = (\<not> pip_ok)" by (simp add: pip_st_def)
  have po: "pip_ok \<Longrightarrow> pip_st = u ''OK''" by (simp add: pip_st_def)
  note gpu = detect_gpu_status_status [OF c4]
  note env = check_env_file_status [OF c5]
  have c6': "py_max status_priority ?others = Inr hi"
    unfolding node_st_def npm_st_def pip_st_def by (rule c6)
  from py_max_Max [of ?others status_priority] c6'
  have mem: "hi \<in> set ?others" and mx: "status_priority hi = Max (status_priority ` set ?others)"
    by auto
  have ge: "\<And>y. y \<in> set ?others \<Longrightarrow> status_priority y \<le> status_priority hi"
    unfolding mx by (rule Max_ge) auto
  have h: "(hi = u ''FAIL'') = (pip_st = u ''FAIL'')"
  proof (cases pip_ok)
    case True
    from po [OF True] mem node npm gpu env have "hi = u ''OK'' \<or> hi = u ''WARN''" by auto
    with po [OF True] show ?thesis by auto
  next
    case False
    with pf have pst: "pip_st = u ''FAIL''" by simp
    then have "status_priority (u ''FAIL'') \<le> status_priority hi" by (intro ge) simp
    moreover from mem node npm gpu env pst
    have "hi = u ''OK'' \<or> hi = u ''WARN'' \<or> hi = u ''FAIL''" by auto
    ultimately have "hi = u ''FAIL''" by auto
    with pst show ?thesis by simp
  qed
  have h2: "pip_st = u ''FAIL'' \<or> hi = u ''OK'' \<or> hi = u ''WARN''"
  proof (cases pip_ok)
    case True
    from po [OF True] mem node npm gpu env show ?thesis by auto
  next
    case False
    with pf show ?thesis by simp
  qed
  from m1 m2 ok pf h h2 show ?thesis
    unfolding sp [symmetric] ss [symmetric] by blast
qed

theorem summary_FAIL_only_from_pip_witness:
  "run_env_diagnostics host_typical [] = (Inr report_typical, calls_typical)
   \<and> exits_zero host_typical [sys_executable host_typical, u ''-m'', u ''pip'', u ''--version'']
   \<and> map_of report_typical (u ''summary'') = Some \<lparr>status = u ''WARN'', detail = MSG_SUMMARY_WARN\<rparr>"
  using summary_FAIL_only_from_pip [OF host_typical_run] host_typical_run host_typical_exits_zero
  by (simp add: report_typical_def)

section \<open>The shape of the report\<close>

text \<open>
  Claim C6. When every exception of the outside world is of a class that the probes
  catch, \<open>run_env_diagnostics\<close> returns a report; and every report it returns,
  whichever probes failed, has exactly the eight names \<open>system\<close>, \<open>python\<close>,
  \<open>node\<close>, \<open>npm\<close>, \<open>pip\<close>, \<open>gpu\<close>, \<open>env_file\<close>, \<open>summary\<close>, each
  once, in this order.
\<close>

theorem report_names_fixed_order:
  "(\<not> faults_are_caught w \<or> (\<exists>report s'. run_env_diagnostics w s = (Inr report, s')))
   \<and> (\<forall>report s'. run_env_diagnostics w s = (Inr report, s') \<longrightarrow>
          map fst report = report_names \<and> distinct (map fst report) \<and> length report = 8)"
proof (intro conjI allI impI)
  show "\<not> faults_are_caught w \<or> (\<exists>report s'. run_env_diagnostics w s = (Inr report, s'))"
    using run_env_diagnostics_returns [of w s] by blast
next
  fix report s'
  assume "run_env_diagnostics w s = (Inr report, s')"
  from report_statuses [OF this] have n: "map fst report = report_names" by blast
  then show "map fst report = report_names" .
  from n show "distinct (map fst report)" by (simp add: report_names_def)
  from n have "length (map fst report) = 8" by (simp add: report_names_def)
  then show "length report = 8" by simp
qed

theorem report_names_fixed_order_witness:
  "faults_are_caught host_without_pip
   \<and> run_env_diagnostics host_without_pip [] = (Inr report_without_pip, calls_typical)
   \<and> map fst report_without_pip = report_names"
  using report_names_fixed_order [of host_without_pip "[]"]
    host_without_pip_faults_are_caught host_without_pip_run
  by simp

section \<open>Exceptions that the probes do not catch\<close>

text \<open>
  Claim C2. The \<open>except\<close> clause of \<open>_run_command\<close> names
  \<open>FileNotFoundError\<close> and \<open>SubprocessError\<close> only. On the host where \<open>node\<close>
  may not be executed, \<open>subprocess.run\<close> raises \<open>PermissionError\<close>, which is
  neither, and \<open>_run_command\<close> raises it to its caller instead of returning
  \<open>(False, str(exc))\<close>.
\<close>

theorem run_command_propagates_PermissionError:
  "run_command host_node_not_executable [u ''node'', u ''--version''] [] =
     (Inl (Exc PermissionError
             (u ''[Errno 13] Permission denied: '' @ [0x27] @ u ''node'' @ [0x27])),
      [[u ''node'', u ''--version'']])"
  by (simp add: run_command_def host_node_not_executable_def)

text \<open>
  Claim C3. \<open>run_env_diagnostics\<close> has no handler of its own, and the \<open>except\<close>
  clause of \<open>_check_env_file\<close> names \<open>OSError\<close> only. On the host whose \<open>.env\<close>
  file is not valid UTF-8 the read raises \<open>UnicodeDecodeError\<close>, which is not an
  \<open>OSError\<close>: the run spawns its four commands and then ends with that exception, and
  no report is returned.
\<close>

theorem run_env_diagnostics_aborts_on_undecodable_env_file:
  "run_env_diagnostics host_env_not_utf8 [] =
     (Inl (Exc UnicodeDecodeError (u ''utf-8 codec cannot decode byte 0xc3 in position 15'')),
      calls_typical)"
proof -
  have f: "sys_executable host_env_not_utf8 = u ''/usr/bin/python3''"
    by (simp add: host_env_not_utf8_def host_typical_def)
  have c: "run_command host_env_not_utf8 = run_command host_typical"
    by (intro ext) (simp add: run_command_def host_env_not_utf8_def)
  have ft: "\<not> find_spec_torch host_env_not_utf8"
    by (simp add: host_env_not_utf8_def host_typical_def)
  have g: "detect_gpu_status host_env_not_utf8 s
     = (Inr \<lparr>status = u ''WARN'', detail = MSG_GPU_MISSING\<rparr>, s @ [[u ''nvidia-smi'']])" for s
    by (simp add: detect_gpu_status_def ft c host_typical_commands bind_io_def return_io_def)
  have e: "check_env_file host_env_not_utf8 (load_default_config host_env_not_utf8)
       = Inl (Exc UnicodeDecodeError (u ''utf-8 codec cannot decode byte 0xc3 in position 15''))"
    by (simp add: check_env_file_def load_default_config_def host_env_not_utf8_def
        host_typical_def)
  show ?thesis
    unfolding run_env_diagnostics_unfold
    by (simp add: f c g e host_typical_commands host_typical_probes calls_typical_def)
qed


section \<open>The aggregation step\<close>

text \<open>
  Claim C10, as amended. The key of the \<open>max\<close> gives a status string that is none of
  \<open>OK\<close>, \<open>WARN\<close>, \<open>FAIL\<close> the priority 2, which is the priority of \<open>FAIL\<close>
  and not one above it. In every report that \<open>run_env_diagnostics\<close> returns, the
  status of the summary is that \<open>max\<close> of the statuses of the other records, in the
  order of the records, and it is the first of them whose priority is maximal: every
  status before it has a strictly smaller priority, every status after it a priority at
  most as large. The \<open>max\<close> does the same on every non-empty list of statuses. So
  when a \<open>FAIL\<close> comes before every unrecognised status of the list, the result is
  \<open>FAIL\<close>.
\<close>

theorem summary_is_first_status_of_maximal_priority:
  "(st \<notin> {u ''OK'', u ''WARN'', u ''FAIL''} \<longrightarrow>
      status_priority st = 2 \<and> status_priority st = status_priority (u ''FAIL''))
   \<and> (run_env_diagnostics w s = (Inr report, s') \<longrightarrow>
        py_max status_priority (map (status \<circ> snd) (butlast report))
          = Inr (status (snd (last report)))
        \<and> (\<exists>pre post.
              map (status \<circ> snd) (butlast report) = pre @ status (snd (last report)) # post
              \<and> (\<forall>y\<in>set pre. status_priority y < status_priority (status (snd (last report))))
              \<and> (\<forall>y\<in>set post.
                    status_priority y \<le> status_priority (status (snd (last report))))))
   \<and> (xs \<noteq> [] \<longrightarrow>
        (\<exists>pre hi post. py_max status_priority xs = Inr hi \<and> xs = pre @ hi # post
           \<and> (\<forall>y\<in>set pre. status_priority y < status_priority hi)
           \<and> (\<forall>y\<in>set post. status_priority y \<le> status_priority hi)))
   \<and> ((\<forall>y\<in>set before. y = u ''OK'' \<or> y = u ''WARN'' \<or> y = u ''FAIL'') \<longrightarrow>
        py_max status_priority (before @ u ''FAIL'' # after) = Inr (u ''FAIL''))"
proof (intro conjI impI)
  assume "st \<notin> {u ''OK'', u ''WARN'', u ''FAIL''}"
  then show "status_priority st = 2" by (simp add: status_priority_unrecognized)
  then show "status_priority st = status_priority (u ''FAIL'')" by simp
next
  assume run: "run_env_diagnostics w s = (Inr report, s')"
  let ?others = "map (status \<circ> snd) (butlast report)"
  let ?hi = "status (snd (last report))"
  from summary_is_py_max [OF run]
  have ne: "?others \<noteq> []" and mx: "py_max status_priority ?others = Inr ?hi" by simp_all
  show "py_max status_priority ?others = Inr ?hi" by (rule mx)
  from py_max_first [OF ne, of status_priority] mx
  show "\<exists>pre post. ?others = pre @ ?hi # post
          \<and> (\<forall>y\<in>set pre. status_priority y < status_priority ?hi)
          \<and> (\<forall>y\<in>set post. status_priority y \<le> status_priority ?hi)"
    by auto
next
  assume "xs \<noteq> []"
  then show "\<exists>pre hi post. py_max status_priority xs = Inr hi \<and> xs = pre @ hi # post
           \<and> (\<forall>y\<in>set pre. status_priority y < status_priority hi)
           \<and> (\<forall>y\<in>set post. status_priority y \<le> status_priority hi)"
    by (rule py_max_first)
next
  assume rec: "\<forall>y\<in>set before. y = u ''OK'' \<or> y = u ''WARN'' \<or> y = u ''FAIL''"
  show "py_max status_priority (before @ u ''FAIL'' # after) = Inr (u ''FAIL'')"
  proof (cases before)
    case Nil
    have "max_from status_priority (u ''FAIL'') after = u ''FAIL''"
      by (rule max_from_top) (simp add: status_priority_le_2)
    with Nil show ?thesis by simp
  next
    case (Cons b bs)
    with rec max_from_FAIL_first [of bs b after] show ?thesis by simp
  qed
qed

theorem summary_is_first_status_of_maximal_priority_witness:
  "u ''BOGUS'' \<notin> {u ''OK'', u ''WARN'', u ''FAIL''}
   \<and> run_env_diagnostics host_without_pip [] = (Inr report_without_pip, calls_typical)
   \<and> [u ''WARN'', u ''FAIL'', u ''BOGUS''] \<noteq> []
   \<and> set [u ''WARN''] \<subseteq> {u ''OK'', u ''WARN'', u ''FAIL''}
   \<and> status_priority (u ''BOGUS'') = 2
   \<and> status (snd (last report_without_pip)) = u ''FAIL''
   \<and> py_max status_priority (map (status \<circ> snd) (butlast report_without_pip))
       = Inr (u ''FAIL'')
   \<and> py_max status_priority ([u ''WARN''] @ u ''FAIL'' # [u ''BOGUS'']) = Inr (u ''FAIL'')"
proof -
  have l: "status (snd (last report_without_pip)) = u ''FAIL''"
    by (simp add: report_without_pip_def)
  from summary_is_first_status_of_maximal_priority
    [of "u ''BOGUS''" host_without_pip "[]" report_without_pip calls_typical
        "[u ''WARN'', u ''FAIL'', u ''BOGUS'']" "[u ''WARN'']" "[u ''BOGUS'']"]
    host_without_pip_run
  show ?thesis
    unfolding l by simp
qed

text \<open>
  Claim C10, as stated, lets any \<open>FAIL\<close> that comes before some unrecognised status
  win. In the list \<open>BOGUS\<close>, \<open>FAIL\<close>, \<open>OTHER\<close> a \<open>FAIL\<close> comes before the
  unrecognised \<open>OTHER\<close>, the three tie at priority 2, and the result is the first of
  them, \<open>BOGUS\<close>.
\<close>

theorem FAIL_before_an_unknown_status_does_not_win:
  "u ''OTHER'' \<notin> {u ''OK'', u ''WARN'', u ''FAIL''}
   \<and> status_priority (u ''BOGUS'') = status_priority (u ''FAIL'')
   \<and> py_max status_priority ([u ''BOGUS''] @ u ''FAIL'' # [u ''OTHER'']) = Inr (u ''BOGUS'')
   \<and> py_max status_priority ([u ''BOGUS''] @ u ''FAIL'' # [u ''OTHER'']) \<noteq> Inr (u ''FAIL'')"
proof -
  have b: "status_priority (u ''BOGUS'') = 2" and c: "status_priority (u ''OTHER'') = 2"
    by (simp_all add: status_priority_unrecognized)
  show ?thesis by (simp add: b c)
qed

section \<open>The GPU probe\<close>

text \<open>
  Claim C7. When \<open>find_spec("torch")\<close> finds the library, \<open>_detect_gpu_status\<close>
  returns a record and raises nothing, and the list of spawned commands is unchanged:
  \<open>OK\<close> with the name of device 0 when a device is available, \<open>WARN\<close> when none
  is, and \<open>WARN\<close> with the text of the exception when the import or either query
  raises. When the library is not found the result is that of \<open>nvidia-smi\<close> through
  \<open>_run_command\<close>. In all, \<open>nvidia-smi\<close> is spawned exactly when the library is not
  found.
\<close>

theorem gpu_probe_strict_fallback:
  "detect_gpu_status w s =
     (if find_spec_torch w then
        (Inr (case import_torch w of
                Some exc \<Rightarrow>
                  \<lparr>status = u ''WARN'', detail = MSG_GPU_QUERY_FAILED @ exc_str exc\<rparr>
              | None \<Rightarrow>
                  (case cuda_is_available w of
                     Inl exc \<Rightarrow>
                       \<lparr>status = u ''WARN'', detail = MSG_GPU_QUERY_FAILED @ exc_str exc\<rparr>
                   | Inr available \<Rightarrow>
                       if available then
                         (case cuda_get_device_name w 0 of
                            Inl exc \<Rightarrow>
                              \<lparr>status = u ''WARN'',
                                 detail = MSG_GPU_QUERY_FAILED @ exc_str exc\<rparr>
                          | Inr device_name \<Rightarrow>
                              \<lparr>status = u ''OK'', detail = MSG_GPU_FOUND @ device_name\<rparr>)
                       else \<lparr>status = u ''WARN'', detail = MSG_GPU_NO_CUDA\<rparr>)),
         s)
      else
        (case run_command w [u ''nvidia-smi''] s of
           (Inl exc, s') \<Rightarrow> (Inl exc, s')
         | (Inr (success, output), s') \<Rightarrow>
             (Inr (if success
                   then \<lparr>status = u ''OK'', detail = MSG_NVIDIA_SMI_OUTPUT @ output\<rparr>
                   else \<lparr>status = u ''WARN'', detail = MSG_GPU_MISSING\<rparr>),
              s')))
   \<and> snd (detect_gpu_status w s) = (if find_spec_torch w then s else s @ [[u ''nvidia-smi'']])"
proof (cases "find_spec_torch w")
  case True
  then show ?thesis
    by (simp add: detect_gpu_status_def query_torch_def split: option.splits sum.splits)
next
  case False
  have "snd (run_command w [u ''nvidia-smi''] s) = s @ [[u ''nvidia-smi'']]"
    by (rule run_command_calls)
  with False show ?thesis
    by (auto simp: detect_gpu_status_def bind_io_def return_io_def split: prod.splits sum.splits)
qed

theorem gpu_probe_strict_fallback_witness:
  "find_spec_torch host_with_cuda
   \<and> detect_gpu_status host_with_cuda [] =
       (Inr \<lparr>status = u ''OK'', detail = MSG_GPU_FOUND @ u ''NVIDIA A100''\<rparr>, [])"
  using gpu_probe_strict_fallback [of host_with_cuda "[]"]
  by (simp add: host_with_cuda_def host_typical_def)

section \<open>The coloured view\<close>

text \<open>
  Claim C8, as amended. \<open>display_results\<close> prints one line per record, in the order
  of the report. Each line starts with the colour code of the status (green for
  \<open>OK\<close>, yellow for \<open>WARN\<close>, red for \<open>FAIL\<close>, the reset code for any other
  status) and ends with the reset code; between them come the name, left-aligned and
  padded with spaces on its right to at least 10 characters, the status in brackets and
  the detail.
\<close>

theorem display_results_lines:
  "display_results report out =
     (Inr (),
      out @ map (\<lambda>(name, entry).
                   (if status entry = u ''OK'' then 0x1B # u ''[92m''
                    else if status entry = u ''WARN'' then 0x1B # u ''[93m''
                    else if status entry = u ''FAIL'' then 0x1B # u ''[91m''
                    else 0x1B # u ''[0m'')
                   @ name @ replicate (10 - length name) 0x20
                   @ u '' ['' @ status entry @ u ''] '' @ detail entry
                   @ 0x1B # u ''[0m'')
              report)"
  by (rule display_results_eq)

theorem display_results_lines_witness:
  "display_results
     [(u ''gpu'', \<lparr>status = u ''WARN'', detail = u ''none''\<rparr>),
      (u ''environment'', \<lparr>status = u ''SKIP'', detail = u ''n/a''\<rparr>)] []
   = (Inr (),
      [0x1B # u ''[93mgpu        [WARN] none'' @ 0x1B # u ''[0m'',
       0x1B # u ''[0menvironment [SKIP] n/a'' @ 0x1B # u ''[0m''])"
  using display_results_lines
    [of "[(u ''gpu'', \<lparr>status = u ''WARN'', detail = u ''none''\<rparr>),
          (u ''environment'', \<lparr>status = u ''SKIP'', detail = u ''n/a''\<rparr>)]" "[]"]
  by (simp add: replicate_7 u_def)

text \<open>
  Claim C8, as stated, has the name left-padded. For the record \<open>gpu\<close> the line
  printed is \<open>gpu\<close> followed by seven spaces, not seven spaces followed by
  \<open>gpu\<close>.
\<close>

theorem display_results_not_left_padded:
  "display_results [(u ''gpu'', \<lparr>status = u ''OK'', detail = u ''A100''\<rparr>)] []
     = (Inr (), [0x1B # u ''[92mgpu        [OK] A100'' @ 0x1B # u ''[0m''])
   \<and> display_results [(u ''gpu'', \<lparr>status = u ''OK'', detail = u ''A100''\<rparr>)] []
     \<noteq> (Inr (), [0x1B # u ''[92m'' @ left_padded 10 (u ''gpu'') @ u '' [OK] A100''
                   @ 0x1B # u ''[0m''])"
proof -
  have l: "length (u ''gpu'') = 3" by (simp add: u_def)
  show ?thesis
    unfolding display_results_eq left_padded_def
    by (simp add: l replicate_7) (simp add: u_def)
qed

section \<open>The secrets-file probe\<close>

text \<open>
  Claim C4. The \<open>except\<close> clause of \<open>_check_env_file\<close> names \<open>OSError\<close> only,
  and \<open>exists()\<close> is called before the \<open>try\<close>. On the host whose \<open>.env\<close> file
  is not valid UTF-8 the file exists, the read raises \<open>UnicodeDecodeError\<close>, and
  \<open>_check_env_file\<close> raises it instead of returning \<open>WARN\<close>. On the host whose
  project directory may not be searched, \<open>exists()\<close> raises \<open>PermissionError\<close> and
  \<open>_check_env_file\<close> raises it too.
\<close>

theorem check_env_file_propagates_read_faults:
  "path_exists host_env_not_utf8 (env_path (load_default_config host_env_not_utf8)) = Inr True
   \<and> path_read_text host_env_not_utf8 (env_path (load_default_config host_env_not_utf8))
       = Inl (Exc UnicodeDecodeError (u ''utf-8 codec cannot decode byte 0xc3 in position 15''))
   \<and> check_env_file host_env_not_utf8 (load_default_config host_env_not_utf8)
       = Inl (Exc UnicodeDecodeError (u ''utf-8 codec cannot decode byte 0xc3 in position 15''))
   \<and> check_env_file host_env_dir_forbidden (load_default_config host_env_dir_forbidden)
       = Inl (Exc PermissionError (u ''[Errno 13] Permission denied''))"
  by (simp add: check_env_file_def load_default_config_def host_env_not_utf8_def
      host_env_dir_forbidden_def host_typical_def)

text \<open>
  Claim C9. Let the first line that matches be some whitespace, the key and a rest
  \<open>v\<close>. The value that the probe extracts is \<open>v\<close> without its trailing
  whitespace, its leading and inner whitespace kept. So a rest made of whitespace only
  gives the empty value and \<open>WARN\<close>, and a rest with one character that is not
  whitespace gives \<open>OK\<close>.
\<close>

theorem whitespace_only_value_counts_as_empty:
  assumes "path_exists w (env_path config) = Inr True"
    and "path_read_text w (env_path config) = Inr content"
    and "splitlines content = before @ (indent @ u ''OPENAI_API_KEY='' @ v) # after"
    and "\<forall>line\<in>set before. \<not> startswith (strip line) (u ''OPENAI_API_KEY='')"
    and "\<forall>c\<in>set indent. is_space c"
  shows "getitem (split_once (strip (indent @ u ''OPENAI_API_KEY='' @ v)) 0x3D) 1
           = Inr (rstrip v)
     \<and> check_env_file w config =
         Inr (if \<forall>c\<in>set v. is_space c
              then \<lparr>status = u ''WARN'', detail = MSG_ENV_KEY_MISSING\<rparr>
              else \<lparr>status = u ''OK'', detail = MSG_ENV_KEY_FOUND\<rparr>)"
proof -
  let ?line = "indent @ u ''OPENAI_API_KEY='' @ v"
  have st: "strip ?line = u ''OPENAI_API_KEY='' @ rstrip v"
    by (rule strip_key_line [OF assms(5)])
  have sw: "startswith (strip ?line) (u ''OPENAI_API_KEY='')"
    unfolding st by (simp add: startswith_iff)
  have tlv: "tl (dropWhile (\<lambda>c. c \<noteq> 0x3D) (strip ?line)) = rstrip v"
    unfolding st by (simp add: dropWhile_key)
  have v1: "getitem (split_once (strip ?line) 0x3D) 1 = Inr (rstrip v)"
    using value_after_key(1) [OF sw] by (simp only: tlv)
  have f: "find (\<lambda>line. startswith (strip line) (u ''OPENAI_API_KEY='')) (splitlines content)
             = Some ?line"
    unfolding assms(3)
    by (rule find_first_match
          [of before "\<lambda>line. startswith (strip line) (u ''OPENAI_API_KEY='')", OF assms(4) sw])
  have "check_env_file w config =
         Inr (if \<forall>c\<in>set v. is_space c
              then \<lparr>status = u ''WARN'', detail = MSG_ENV_KEY_MISSING\<rparr>
              else \<lparr>status = u ''OK'', detail = MSG_ENV_KEY_FOUND\<rparr>)"
    unfolding check_env_file_eq using assms(1,2) rstrip_eq_Nil_iff [of v]
    by (simp add: f tlv)
  with v1 show ?thesis by simp
qed

theorem whitespace_only_value_counts_as_empty_witness:
  "path_exists host_with_env_file (env_path (load_default_config host_with_env_file))
     = Inr True
   \<and> path_read_text host_with_env_file (env_path (load_default_config host_with_env_file))
       = Inr env_file_text
   \<and> splitlines env_file_text
       = [u ''# HeartLink''] @ (u ''  '' @ u ''OPENAI_API_KEY='' @ u ''  sk-abc  '')
           # [u ''OPENAI_API_KEY='']
   \<and> \<not> startswith (strip (u ''# HeartLink'')) (u ''OPENAI_API_KEY='')
   \<and> is_space 0x20
   \<and> rstrip (u ''  sk-abc  '') = u ''  sk-abc''
   \<and> getitem (split_once (strip (u ''  '' @ u ''OPENAI_API_KEY='' @ u ''  sk-abc  '')) 0x3D) 1
       = Inr (u ''  sk-abc'')
   \<and> check_env_file host_with_env_file (load_default_config host_with_env_file)
       = Inr \<lparr>status = u ''OK'', detail = MSG_ENV_KEY_FOUND\<rparr>"
proof -
  have h3: "splitlines env_file_text
       = [u ''# HeartLink''] @ (u ''  '' @ u ''OPENAI_API_KEY='' @ u ''  sk-abc  '')
           # [u ''OPENAI_API_KEY='']"
    by (simp add: splitlines_env_file_text) (simp add: u_def)
  have h4: "\<forall>line\<in>set [u ''# HeartLink'']. \<not> startswith (strip line) (u ''OPENAI_API_KEY='')"
    by (simp add: strip_env_lines) (simp add: startswith_def u_def)
  have h5: "\<forall>c\<in>set (u ''  ''). is_space c"
    by (simp add: u_def is_space_def)
  have sp: "is_space 0x20" by (simp add: is_space_def)
  have rs: "rstrip (u ''  sk-abc  '') = u ''  sk-abc''"
    by (simp add: rstrip_def is_space_def u_def)
  have ns: "\<not> (\<forall>c\<in>set (u ''  sk-abc  ''). is_space c)"
    by (simp add: u_def is_space_def)
  from whitespace_only_value_counts_as_empty
    [OF host_with_env_file_fields(1) host_with_env_file_fields(2) h3 h4 h5]
  show ?thesis
    using host_with_env_file_fields h3 h4 sp
    by (simp only: rs ns if_False simp_thms) simp
qed


end
